theory Spec2Isabelle
  imports Complex_Main "HOL-Library.AList"
begin

section \<open>WebSocketHandler (websocket-handler.js)\<close>

text \<open>
  The handler object of \<^verbatim>\<open>websocket-handler.js\<close>. The second copy of the class in the
  repository has the same \<^verbatim>\<open>connect\<close>, \<^verbatim>\<open>handleOpen\<close>, \<^verbatim>\<open>handleReconnect\<close> and
  \<^verbatim>\<open>sendMessage\<close> as far as the fields below are concerned.

  \<^item> \<open>ws\<close> is \<^verbatim>\<open>this.ws\<close>: \<open>None\<close> for \<^verbatim>\<open>null\<close>, otherwise the \<^verbatim>\<open>readyState\<close> of the
    WebSocket object the handler currently refers to.
  \<^item> \<open>reconnectDelay\<close> and the scheduled delays are JavaScript numbers; they are rationals
    here. For the constructor's values (3000, factor 1.5, at most 5 attempts) every delay
    is a dyadic rational that a double represents exactly.
  \<^item> Three fields record what the handler does to its environment: how many WebSocket
    objects \<^verbatim>\<open>connect\<close> has constructed, the messages handed to \<^verbatim>\<open>ws.send\<close> without an
    exception (in order), and the delays passed to \<^verbatim>\<open>setTimeout\<close> (in order).
\<close>

datatype readyState = CONNECTING | OPEN | CLOSING | CLOSED

record 'm WebSocketHandler =
  ws :: "readyState option"
  reconnectAttempts :: nat
  maxReconnectAttempts :: nat
  reconnectDelay :: rat
  isConnecting :: bool
  messageQueue :: "'m list"
  socketsCreated :: nat
  transmitted :: "'m list"
  timers :: "rat list"

text \<open>
  \<^verbatim>\<open>handleReconnect\<close>: give up at the cap, otherwise count the attempt and schedule
  \<^verbatim>\<open>connect\<close> after \<^verbatim>\<open>reconnectDelay * Math.pow(1.5, reconnectAttempts - 1)\<close>.
\<close>

definition handleReconnect :: "'m WebSocketHandler \<Rightarrow> 'm WebSocketHandler" where
  "handleReconnect s =
     (if reconnectAttempts s \<ge> maxReconnectAttempts s then s
      else
        let n = reconnectAttempts s + 1;
            delay = reconnectDelay s * (3 / 2) ^ (n - 1)
        in s\<lparr>reconnectAttempts := n, timers := timers s @ [delay]\<rparr>)"

text \<open>
  \<^verbatim>\<open>connect\<close>. The flag \<open>ctor_throws\<close> says whether \<^verbatim>\<open>new WebSocket(...)\<close> throws; the
  \<^verbatim>\<open>catch\<close> branch calls \<^verbatim>\<open>handleReconnect\<close> and leaves \<^verbatim>\<open>isConnecting\<close> set.
  \<^verbatim>\<open>setupEventListeners\<close> only installs the callbacks, which are the functions below.
\<close>

definition connect :: "bool \<Rightarrow> 'm WebSocketHandler \<Rightarrow> 'm WebSocketHandler" where
  "connect ctor_throws s =
     (if isConnecting s then s
      else
        let s1 = s\<lparr>isConnecting := True\<rparr>
        in if ctor_throws then handleReconnect s1
           else s1\<lparr>ws := Some CONNECTING, socketsCreated := socketsCreated s1 + 1\<rparr>)"

text \<open>The constructor: the field initialisers, then \<^verbatim>\<open>this.connect()\<close>.\<close>

definition fresh :: "'m WebSocketHandler" where
  "fresh = \<lparr>ws = None, reconnectAttempts = 0, maxReconnectAttempts = 5,
            reconnectDelay = 3000, isConnecting = False, messageQueue = [],
            socketsCreated = 0, transmitted = [], timers = []\<rparr>"

declare fresh_def [code_unfold]

definition constructor :: "bool \<Rightarrow> 'm WebSocketHandler" where
  "constructor ctor_throws = connect ctor_throws fresh"

text \<open>
  \<^verbatim>\<open>sendMessage\<close>. \<open>throws m\<close> says that the \<^verbatim>\<open>try\<close> block (standardise, serialise,
  \<^verbatim>\<open>ws.send\<close>) raises an exception for \<open>m\<close>. Both the not-open branch and the
  \<^verbatim>\<open>catch\<close> branch do \<^verbatim>\<open>this.messageQueue.push(message)\<close>, which appends at the end.
\<close>

definition sendMessage ::
  "('m \<Rightarrow> bool) \<Rightarrow> 'm \<Rightarrow> 'm WebSocketHandler \<Rightarrow> 'm WebSocketHandler" where
  "sendMessage throws m s =
     (if ws s = None \<or> ws s \<noteq> Some OPEN
      then s\<lparr>messageQueue := messageQueue s @ [m]\<rparr>
      else if throws m
           then s\<lparr>messageQueue := messageQueue s @ [m]\<rparr>
           else s\<lparr>transmitted := transmitted s @ [m]\<rparr>)"

text \<open>
  The loop of the \<^verbatim>\<open>onopen\<close> callback: while the queue is not empty, \<^verbatim>\<open>shift()\<close> its
  head and pass it to \<^verbatim>\<open>sendMessage\<close>. The loop need not end (a message that is
  pushed back each time keeps the queue non-empty), so the result is an option and
  \<open>None\<close> stands for a loop that never returns.
\<close>

partial_function (option) drainQueue ::
  "('m \<Rightarrow> bool) \<Rightarrow> 'm WebSocketHandler \<Rightarrow> 'm WebSocketHandler option" where
  "drainQueue throws s =
     (case messageQueue s of
        [] \<Rightarrow> Some s
      | m # rest \<Rightarrow> drainQueue throws (sendMessage throws m (s\<lparr>messageQueue := rest\<rparr>)))"

declare drainQueue.simps [code]

definition onopen ::
  "('m \<Rightarrow> bool) \<Rightarrow> 'm WebSocketHandler \<Rightarrow> 'm WebSocketHandler option" where
  "onopen throws s = drainQueue throws (s\<lparr>isConnecting := False, reconnectAttempts := 0\<rparr>)"

definition onclose :: "'m WebSocketHandler \<Rightarrow> 'm WebSocketHandler" where
  "onclose s = handleReconnect (s\<lparr>isConnecting := False\<rparr>)"

text \<open>The callback given to \<^verbatim>\<open>setTimeout\<close> by \<^verbatim>\<open>handleReconnect\<close>.\<close>

definition onTimer :: "bool \<Rightarrow> 'm WebSocketHandler \<Rightarrow> 'm WebSocketHandler" where
  "onTimer ctor_throws s = (if \<not> isConnecting s then connect ctor_throws s else s)"

text \<open>
  The browser's side of the two socket events: the socket the handler refers to becomes
  \<open>OPEN\<close> (or \<open>CLOSED\<close>) and then the callback runs to completion.
\<close>

definition socketOpens ::
  "('m \<Rightarrow> bool) \<Rightarrow> 'm WebSocketHandler \<Rightarrow> 'm WebSocketHandler option" where
  "socketOpens throws s = onopen throws (s\<lparr>ws := map_option (\<lambda>_. OPEN) (ws s)\<rparr>)"

definition socketCloses :: "'m WebSocketHandler \<Rightarrow> 'm WebSocketHandler" where
  "socketCloses s = onclose (s\<lparr>ws := map_option (\<lambda>_. CLOSED) (ws s)\<rparr>)"

text \<open>
  What can happen to the handler while its socket is not open: a caller sends a message,
  the socket closes, a reconnection timer fires. \<open>sends\<close> are the messages of the
  \<^verbatim>\<open>sendMessage\<close> calls among the events, in call order.
\<close>

datatype 'm offlineEvent = Send 'm | SocketCloses | TimerFires bool

fun offlineStep ::
  "('m \<Rightarrow> bool) \<Rightarrow> 'm WebSocketHandler \<Rightarrow> 'm offlineEvent \<Rightarrow> 'm WebSocketHandler" where
  "offlineStep throws s (Send m) = sendMessage throws m s"
| "offlineStep throws s SocketCloses = socketCloses s"
| "offlineStep throws s (TimerFires ctor_throws) = onTimer ctor_throws s"

definition runOffline ::
  "('m \<Rightarrow> bool) \<Rightarrow> 'm offlineEvent list \<Rightarrow> 'm WebSocketHandler \<Rightarrow> 'm WebSocketHandler" where
  "runOffline throws evs s = foldl (offlineStep throws) s evs"

fun sends :: "'m offlineEvent list \<Rightarrow> 'm list" where
  "sends [] = []"
| "sends (Send m # evs) = m # sends evs"
| "sends (e # evs) = sends evs"


section \<open>AudioManager (audio-manager.js)\<close>

text \<open>
  The playback queue. \<open>'a\<close> is the type of the \<^verbatim>\<open>Audio\<close> objects; \<open>currentAudioIndex\<close> is a
  JavaScript number that starts at \<open>-1\<close>, hence an integer. \<open>playErrors\<close> records each call
  of \<^verbatim>\<open>debugLogger.error\<close> in the \<^verbatim>\<open>catch\<close> of \<^verbatim>\<open>playNext\<close>, by the cursor position it was
  logged at.
\<close>

record 'a AudioManager =
  audioQueue :: "'a list"
  currentAudioIndex :: int
  isPlaying :: bool
  currentAudio :: "'a option"
  playErrors :: "int list"

definition newAudioManager :: "'a AudioManager" where
  "newAudioManager = \<lparr>audioQueue = [], currentAudioIndex = -1, isPlaying = False,
                       currentAudio = None, playErrors = []\<rparr>"

declare newAudioManager_def [code_unfold]

text \<open>\<^verbatim>\<open>addAudio\<close>: build the \<^verbatim>\<open>Audio\<close> object, attach its listeners, push it on the queue.\<close>

definition addAudio :: "'a \<Rightarrow> 'a AudioManager \<Rightarrow> 'a AudioManager" where
  "addAudio audio s = s\<lparr>audioQueue := audioQueue s @ [audio]\<rparr>"

text \<open>
  \<^verbatim>\<open>playNext\<close>. \<open>rejects a\<close> says that \<^verbatim>\<open>await a.play()\<close> throws. The \<^verbatim>\<open>await\<close> is taken as
  one step. An index below zero reads \<^verbatim>\<open>undefined\<close> from the array, and the access to
  \<^verbatim>\<open>audio.messageElement\<close> then throws into the same \<^verbatim>\<open>catch\<close>. The \<^verbatim>\<open>catch\<close> logs and
  calls \<^verbatim>\<open>playNext\<close> again.
\<close>

function playNext :: "('a \<Rightarrow> bool) \<Rightarrow> 'a AudioManager \<Rightarrow> 'a AudioManager" where
  "playNext rejects s =
     (let i = currentAudioIndex s + 1;
          s1 = s\<lparr>currentAudioIndex := i\<rparr>
      in if i < int (length (audioQueue s))
         then (if i < 0
               then playNext rejects (s1\<lparr>currentAudio := None, playErrors := playErrors s1 @ [i]\<rparr>)
               else
                 let audio = audioQueue s ! nat i;
                     s2 = s1\<lparr>currentAudio := Some audio\<rparr>
                 in if rejects audio
                    then playNext rejects (s2\<lparr>playErrors := playErrors s2 @ [i]\<rparr>)
                    else s2\<lparr>isPlaying := True\<rparr>)
         else s1\<lparr>currentAudioIndex := -1, isPlaying := False, currentAudio := None\<rparr>)"
  by pat_completeness auto
termination
  by (relation "measure (\<lambda>(rejects, s). nat (int (length (audioQueue s)) - currentAudioIndex s))")
     auto

declare playNext.simps [simp del]

definition pauseCurrent :: "'a AudioManager \<Rightarrow> 'a AudioManager" where
  "pauseCurrent s = (case currentAudio s of None \<Rightarrow> s | Some a \<Rightarrow> s\<lparr>isPlaying := False\<rparr>)"

definition resumeCurrent :: "('a \<Rightarrow> bool) \<Rightarrow> 'a AudioManager \<Rightarrow> 'a AudioManager" where
  "resumeCurrent rejects s =
     (case currentAudio s of
        None \<Rightarrow> s
      | Some a \<Rightarrow> if rejects a then s else s\<lparr>isPlaying := True\<rparr>)"

definition togglePlayAll :: "('a \<Rightarrow> bool) \<Rightarrow> 'a AudioManager \<Rightarrow> 'a AudioManager" where
  "togglePlayAll rejects s =
     (if \<not> isPlaying s
      then (if currentAudioIndex s = -1 \<or> currentAudioIndex s \<ge> int (length (audioQueue s)) - 1
            then playNext rejects (s\<lparr>currentAudioIndex := -1\<rparr>)
            else resumeCurrent rejects s)
      else pauseCurrent s)"

definition togglePause :: "('a \<Rightarrow> bool) \<Rightarrow> 'a AudioManager \<Rightarrow> 'a AudioManager" where
  "togglePause rejects s = (if isPlaying s then pauseCurrent s else resumeCurrent rejects s)"

text \<open>The \<^verbatim>\<open>ended\<close> listener that \<^verbatim>\<open>addAudio\<close> attaches to each audio.\<close>

definition onEnded :: "('a \<Rightarrow> bool) \<Rightarrow> 'a \<Rightarrow> 'a AudioManager \<Rightarrow> 'a AudioManager" where
  "onEnded rejects audio s = (if currentAudio s = Some audio then playNext rejects s else s)"

text \<open>
  The \<^verbatim>\<open>error\<close> listener that \<^verbatim>\<open>addAudio\<close> attaches to each audio: one call of
  \<^verbatim>\<open>debugLogger.error\<close> and nothing else. The result is the audios it logged and the
  manager, which it does not touch.
\<close>

definition onError :: "'a \<Rightarrow> 'a AudioManager \<Rightarrow> 'a list \<times> 'a AudioManager" where
  "onError audio s = ([audio], s)"

definition resetAudio :: "'a AudioManager \<Rightarrow> 'a AudioManager" where
  "resetAudio s = s\<lparr>audioQueue := [], currentAudioIndex := -1, isPlaying := False,
                    currentAudio := None\<rparr>"

section \<open>FileUploadManager (file-upload-manager.js)\<close>

text \<open>
  The registry part of the class: the \<^verbatim>\<open>files\<close> Map (an association list in insertion
  order, keyed by \<^verbatim>\<open>file_id\<close>) and \<^verbatim>\<open>activeFile\<close>. Of a record only \<open>processed\<close> and
  \<^verbatim>\<open>context\<close> (here \<open>fileContext\<close>) are kept; the other properties come from the upload response and are only
  displayed. A context is a string, \<^verbatim>\<open>null\<close> is \<open>None\<close>.
\<close>

record fileRecord =
  processed :: bool
  fileContext :: "string option"

record FileUploadManager =
  files :: "(string \<times> fileRecord) list"
  activeFile :: "string option"

definition newFileUploadManager :: FileUploadManager where
  "newFileUploadManager = \<lparr>files = [], activeFile = None\<rparr>"

text \<open>JavaScript truthiness of a value that is \<^verbatim>\<open>null\<close>/\<^verbatim>\<open>undefined\<close> or a string.\<close>

definition truthy :: "string option \<Rightarrow> bool" where
  "truthy v = (case v of None \<Rightarrow> False | Some x \<Rightarrow> x \<noteq> [])"

definition addFileToList :: "string \<Rightarrow> FileUploadManager \<Rightarrow> FileUploadManager" where
  "addFileToList file_id fm =
     fm\<lparr>files := AList.update file_id \<lparr>processed = False, fileContext = None\<rparr> (files fm)\<rparr>"

definition toggleFileContext :: "string \<Rightarrow> FileUploadManager \<Rightarrow> FileUploadManager" where
  "toggleFileContext fileId fm =
     fm\<lparr>activeFile := (if activeFile fm = Some fileId then None else Some fileId)\<rparr>"

text \<open>\<^verbatim>\<open>deleteFile\<close>; \<open>ok\<close> is \<^verbatim>\<open>response.ok\<close> of the DELETE request.\<close>

definition deleteFile :: "bool \<Rightarrow> string \<Rightarrow> FileUploadManager \<Rightarrow> FileUploadManager" where
  "deleteFile ok fileId fm =
     (if \<not> ok then fm
      else fm\<lparr>activeFile := (if activeFile fm = Some fileId then None else activeFile fm),
              files := AList.delete fileId (files fm)\<rparr>)"

definition updateFileStatus ::
  "string \<Rightarrow> string \<Rightarrow> string option \<Rightarrow> FileUploadManager \<Rightarrow> FileUploadManager" where
  "updateFileStatus fileId status ctx fm =
     (case map_of (files fm) fileId of
        None \<Rightarrow> fm
      | Some file \<Rightarrow>
          fm\<lparr>files := AList.update fileId
                (file\<lparr>processed := (status = ''processed''),
                      fileContext := (if truthy ctx then ctx else fileContext file)\<rparr>) (files fm)\<rparr>)"

definition getActiveFileContext :: "FileUploadManager \<Rightarrow> string option" where
  "getActiveFileContext fm =
     (if \<not> truthy (activeFile fm) then None
      else case activeFile fm of
             None \<Rightarrow> None
           | Some a \<Rightarrow> (case map_of (files fm) a of None \<Rightarrow> None | Some file \<Rightarrow> fileContext file))"

text \<open>The calls that change the registry, and a run of them from the constructor's state.\<close>

datatype fileOp =
    AddFile string
  | ToggleFile string
  | DeleteFile bool string
  | UpdateStatus string string "string option"

fun applyFileOp :: "fileOp \<Rightarrow> FileUploadManager \<Rightarrow> FileUploadManager" where
  "applyFileOp (AddFile i) fm = addFileToList i fm"
| "applyFileOp (ToggleFile i) fm = toggleFileContext i fm"
| "applyFileOp (DeleteFile ok i) fm = deleteFile ok i fm"
| "applyFileOp (UpdateStatus i st c) fm = updateFileStatus i st c fm"

definition runFileOps :: "fileOp list \<Rightarrow> FileUploadManager \<Rightarrow> FileUploadManager" where
  "runFileOps ops fm = foldl (\<lambda>t op. applyFileOp op t) fm ops"

text \<open>
  The one caller of \<^verbatim>\<open>updateFileStatus\<close> in the repository (\<^verbatim>\<open>handleFileProcessed\<close>) passes
  the status \<^verbatim>\<open>'processed'\<close>.
\<close>

fun statusProcessed :: "fileOp \<Rightarrow> bool" where
  "statusProcessed (UpdateStatus i st c) = (st = ''processed'')"
| "statusProcessed _ = True"

section \<open>SurveyManager (survey-manager.js)\<close>

text \<open>
  A survey as the server sends it: sections of questions. Of a question the fields that
  validation reads are kept. \<^verbatim>\<open>question.validation\<close> may be missing; each bound in it may
  be missing. Numbers are integers (the rating stars and the lengths are).
\<close>

datatype qtype = SingleChoice | MultipleChoice | TextQuestion | Rating | OtherType

record validation =
  min_select :: "int option"
  max_select :: "int option"
  min_length :: "int option"
  max_length :: "int option"
  v_min :: "int option"
  v_max :: "int option"

record question =
  question_id :: string
  title :: string
  required :: bool
  qtype :: qtype
  validation :: "validation option"

record surveySection =
  questions :: "question list"

record survey =
  sections :: "surveySection list"

text \<open>
  A value read from \<^verbatim>\<open>this.surveyResponses\<close>: a number (rating), a string (text) or an
  array of option values (choices) when it was stored; and, because the object is a plain
  \<^verbatim>\<open>{}\<close>, a function (with its \<^verbatim>\<open>length\<close>) or the prototype object when the key is one
  of the names every object inherits. \<^verbatim>\<open>undefined\<close> is \<open>None\<close>.
\<close>

datatype answer = Num int | Str string | Arr "string list" | Fn int | ProtoObject

text \<open>The own properties of \<^verbatim>\<open>surveyResponses\<close>, by key.\<close>

type_synonym responses = "(string \<times> answer) list"

text \<open>
  The properties of \<^verbatim>\<open>Object.prototype\<close>: methods with their number of parameters, and
  the \<^verbatim>\<open>__proto__\<close> accessor, which yields the prototype object itself.
\<close>

definition objectPrototype :: "(string \<times> answer) list" where
  "objectPrototype =
     [(''constructor'', Fn 1), (''hasOwnProperty'', Fn 1), (''isPrototypeOf'', Fn 1),
      (''propertyIsEnumerable'', Fn 1), (''toLocaleString'', Fn 0), (''toString'', Fn 0),
      (''valueOf'', Fn 0), (''__defineGetter__'', Fn 2), (''__defineSetter__'', Fn 2),
      (''__lookupGetter__'', Fn 1), (''__lookupSetter__'', Fn 1), (''__proto__'', ProtoObject)]"


text \<open>
  \<^verbatim>\<open>this.surveyResponses[key]\<close>: the own property if there is one, otherwise what the
  prototype chain gives.
\<close>

definition lookupResponse :: "responses \<Rightarrow> string \<Rightarrow> answer option" where
  "lookupResponse rs key =
     (case map_of rs key of Some a \<Rightarrow> Some a | None \<Rightarrow> map_of objectPrototype key)"

text \<open>
  \<^verbatim>\<open>!response\<close>: \<^verbatim>\<open>undefined\<close>, the number 0 and the empty string are falsy; any array,
  function or object is truthy.
\<close>

fun falsy :: "answer option \<Rightarrow> bool" where
  "falsy None = True"
| "falsy (Some (Num n)) = (n = 0)"
| "falsy (Some (Str s)) = (s = [])"
| "falsy (Some (Arr xs)) = False"
| "falsy (Some (Fn k)) = False"
| "falsy (Some ProtoObject) = False"

text \<open>
  \<^verbatim>\<open>response.length\<close>: a number and the prototype object have none (\<^verbatim>\<open>undefined\<close>); a
  function has its number of parameters.
\<close>

fun js_length :: "answer \<Rightarrow> int option" where
  "js_length (Num n) = None"
| "js_length (Str s) = Some (int (length s))"
| "js_length (Arr xs) = Some (int (length xs))"
| "js_length (Fn k) = Some k"
| "js_length ProtoObject = None"

text \<open>
  The numeric value that \<^verbatim>\<open>response < min\<close> compares: the number itself; \<^verbatim>\<open>NaN\<close> (\<open>None\<close>)
  for a function and for the prototype object, whose string forms are no numerals; and
  for a string or an array the language's conversion to a number, which is the parameter
  \<open>toNumber\<close>.
\<close>

fun js_number :: "(answer \<Rightarrow> int option) \<Rightarrow> answer \<Rightarrow> int option" where
  "js_number toNumber (Num n) = Some n"
| "js_number toNumber (Fn k) = None"
| "js_number toNumber ProtoObject = None"
| "js_number toNumber a = toNumber a"

text \<open>
  The messages of \<^verbatim>\<open>validateQuestion\<close>. Each is the question's title followed by a fixed
  text and, for a bound, the bound; the constructor stands for the text.
\<close>

datatype verror =
    RequiredMissing string
  | MinSelect string int
  | MaxSelect string int
  | MinLength string int
  | MaxLength string int
  | MinRating string int
  | MaxRating string int


text \<open>
  \<^verbatim>\<open>if (lo && x < lo) return ...\<close> and \<^verbatim>\<open>if (hi && x > hi) return ...\<close>: a missing or zero
  bound is falsy, and a comparison with \<^verbatim>\<open>undefined\<close> or \<^verbatim>\<open>NaN\<close> is false.
\<close>

fun belowMin :: "int option \<Rightarrow> int option \<Rightarrow> (int \<Rightarrow> verror) \<Rightarrow> verror option" where
  "belowMin (Some x) (Some lo) mk = (if lo \<noteq> 0 \<and> x < lo then Some (mk lo) else None)"
| "belowMin x lo mk = None"

fun aboveMax :: "int option \<Rightarrow> int option \<Rightarrow> (int \<Rightarrow> verror) \<Rightarrow> verror option" where
  "aboveMax (Some x) (Some hi) mk = (if hi \<noteq> 0 \<and> x > hi then Some (mk hi) else None)"
| "aboveMax x hi mk = None"

definition orElse :: "'e option \<Rightarrow> 'e option \<Rightarrow> 'e option" where
  "orElse a b = (case a of Some e \<Rightarrow> Some e | None \<Rightarrow> b)"

text \<open>\<^verbatim>\<open>question.validation || {}\<close>\<close>

definition noBounds :: validation where
  "noBounds = \<lparr>min_select = None, max_select = None, min_length = None,
               max_length = None, v_min = None, v_max = None\<rparr>"

definition boundsOf :: "question \<Rightarrow> validation" where
  "boundsOf q = (case validation q of None \<Rightarrow> noBounds | Some v \<Rightarrow> v)"

definition validateQuestion ::
  "(answer \<Rightarrow> int option) \<Rightarrow> responses \<Rightarrow> question \<Rightarrow> verror option" where
  "validateQuestion toNumber rs q =
     (let response = lookupResponse rs (question_id q)
      in if required q \<and> falsy response then Some (RequiredMissing (title q))
         else if falsy response then None
         else case response of
                None \<Rightarrow> None
              | Some r \<Rightarrow>
                  (case qtype q of
                     MultipleChoice \<Rightarrow>
                       orElse (belowMin (js_length r) (min_select (boundsOf q)) (MinSelect (title q)))
                              (aboveMax (js_length r) (max_select (boundsOf q)) (MaxSelect (title q)))
                   | TextQuestion \<Rightarrow>
                       orElse (belowMin (js_length r) (min_length (boundsOf q)) (MinLength (title q)))
                              (aboveMax (js_length r) (max_length (boundsOf q)) (MaxLength (title q)))
                   | Rating \<Rightarrow>
                       orElse (belowMin (js_number toNumber r) (v_min (boundsOf q)) (MinRating (title q)))
                              (aboveMax (js_number toNumber r) (v_max (boundsOf q)) (MaxRating (title q)))
                   | _ \<Rightarrow> None))"

text \<open>
  \<^verbatim>\<open>validateResponses\<close>: every question of every section in order. The result is
  \<^verbatim>\<open>isValid\<close>, the \<^verbatim>\<open>errors\<close> Set (insertion order, no duplicates) and the texts that
  \<^verbatim>\<open>showError\<close> wrote, by question id.
\<close>

definition allQuestions :: "survey \<Rightarrow> question list" where
  "allQuestions sv = concat (map questions (sections sv))"

type_synonym validationState = "bool \<times> verror list \<times> (string \<times> verror) list"

definition validateStep ::
  "(answer \<Rightarrow> int option) \<Rightarrow> responses \<Rightarrow> validationState \<Rightarrow> question \<Rightarrow> validationState" where
  "validateStep toNumber rs st q =
     (case st of (isValid, errors, marks) \<Rightarrow>
        (case validateQuestion toNumber rs q of
           None \<Rightarrow> (isValid, errors, marks)
         | Some e \<Rightarrow> (False, (if e \<in> set errors then errors else errors @ [e]),
                      AList.update (question_id q) e marks)))"

definition validateResponses ::
  "(answer \<Rightarrow> int option) \<Rightarrow> survey \<Rightarrow> responses \<Rightarrow> (string \<times> verror) list \<Rightarrow> validationState" where
  "validateResponses toNumber sv rs marks =
     foldl (validateStep toNumber rs) (True, [], marks) (allQuestions sv)"







record SurveyManager =
  currentSurvey :: "survey option"
  surveyResponses :: responses
  surveyId :: "string option"
  analysis :: "string option"
  plan :: "string option"
  currentStep :: nat

definition newSurveyManager :: SurveyManager where
  "newSurveyManager = \<lparr>currentSurvey = None, surveyResponses = [], surveyId = None,
                        analysis = None, plan = None, currentStep = 1\<rparr>"

text \<open>\<^verbatim>\<open>reset\<close> assigns the same values as the constructor.\<close>

definition resetSurvey :: "SurveyManager \<Rightarrow> SurveyManager" where
  "resetSurvey m = m\<lparr>currentSurvey := None, surveyResponses := [], surveyId := None,
                     analysis := None, plan := None, currentStep := 1\<rparr>"

text \<open>
  \<^verbatim>\<open>handleRatingClick\<close>. Before the assignment the method reads
  \<^verbatim>\<open>document.querySelector('[name="<id>"]').parentElement\<close> and the stars in it; \<open>found\<close>
  says that these reads yield elements. The rating stars carry no \<^verbatim>\<open>name\<close> attribute, so
  unless another element has that name the method throws and nothing is stored.
  Assigning a number to the key \<^verbatim>\<open>__proto__\<close> stores nothing either.
\<close>

definition handleRatingClick ::
  "bool \<Rightarrow> string \<Rightarrow> int \<Rightarrow> SurveyManager \<Rightarrow> SurveyManager" where
  "handleRatingClick found questionId v m =
     (if \<not> found then m
      else if questionId = ''__proto__'' then m
      else m\<lparr>surveyResponses := AList.update questionId (Num v) (surveyResponses m)\<rparr>)"

section \<open>The page: the managers, the connection and what the user is shown\<close>

text \<open>The objects passed to \<^verbatim>\<open>wsHandler.sendMessage\<close>, by their \<^verbatim>\<open>type\<close> field.\<close>

datatype outmsg =
    SurveyGenerate string
  | SurveySubmit "string option" responses
  | ProgramPlan "string option"
  | FileProcess string

text \<open>The \<^verbatim>\<open>alert\<close> calls: the validation summary, and the messages of \<^verbatim>\<open>handleError\<close>.\<close>

datatype failure = StartFailed | SurveyFailed | SubmitFailed | AnalysisFailed | PlanFailed

datatype alert = ValidationAlert "verror list" | FailureAlert failure

text \<open>
  \<open>surveyManagerBound\<close>: the global \<^verbatim>\<open>surveyManager\<close> is an object (it is \<^verbatim>\<open>null\<close> until the
  page has initialised it). \<open>windowSurveyManager\<close>, \<open>windowAudioManager\<close>: the tests
  \<^verbatim>\<open>window.surveyManager\<close> and \<^verbatim>\<open>window.audioManager\<close> in \<^verbatim>\<open>websocket-handler.js\<close> succeed.
  \<open>errorMarks\<close> are the texts in the survey's \<^verbatim>\<open>error-<id>\<close> elements; the audio objects
  are their URLs.
\<close>

record page =
  wsHandler :: "outmsg WebSocketHandler"
  surveyManager :: SurveyManager
  surveyManagerBound :: bool
  windowSurveyManager :: bool
  windowAudioManager :: bool
  audioManager :: "string AudioManager"
  alerts :: "alert list"
  errorMarks :: "(string \<times> verror) list"

text \<open>A decoded inbound frame: the properties of \<^verbatim>\<open>response\<close> that the handlers read.\<close>

record frame =
  f_error :: "string option"
  f_type :: "string option"
  f_status :: "string option"
  f_survey :: "survey option"
  f_survey_id :: "string option"
  f_analysis :: "string option"
  f_plan :: "string option"
  f_audio_file :: "string option"

definition startSurveyProcess :: "(outmsg \<Rightarrow> bool) \<Rightarrow> string \<Rightarrow> page \<Rightarrow> page" where
  "startSurveyProcess throws topic w =
     w\<lparr>wsHandler := sendMessage throws (SurveyGenerate topic) (wsHandler w)\<rparr>"

text \<open>
  \<^verbatim>\<open>handleSurveyGenerated\<close>: the two assignments come first and there is no test of the
  current step. \<^verbatim>\<open>renderSurvey\<close> empties the container (and with it the error elements)
  and throws when the frame carried no survey; the \<^verbatim>\<open>catch\<close> calls \<^verbatim>\<open>handleError\<close>.
\<close>

definition handleSurveyGenerated :: "frame \<Rightarrow> page \<Rightarrow> page" where
  "handleSurveyGenerated data w =
     (let m = (surveyManager w)\<lparr>currentSurvey := f_survey data, surveyId := f_survey_id data\<rparr>
      in case f_survey data of
           None \<Rightarrow> w\<lparr>surveyManager := m, errorMarks := [],
                     alerts := alerts w @ [FailureAlert SurveyFailed]\<rparr>
         | Some sv \<Rightarrow> w\<lparr>surveyManager := m\<lparr>currentStep := 1\<rparr>, errorMarks := []\<rparr>)"

text \<open>
  \<^verbatim>\<open>handleAnalysisReceived\<close> and \<^verbatim>\<open>handlePlanReceived\<close>; rendering throws when the payload is
  missing. The analysis handler requests the plan itself.
\<close>

definition handleAnalysisReceived :: "(outmsg \<Rightarrow> bool) \<Rightarrow> frame \<Rightarrow> page \<Rightarrow> page" where
  "handleAnalysisReceived throws data w =
     (let m = (surveyManager w)\<lparr>analysis := f_analysis data\<rparr>
      in case f_analysis data of
           None \<Rightarrow> w\<lparr>surveyManager := m, alerts := alerts w @ [FailureAlert AnalysisFailed]\<rparr>
         | Some a \<Rightarrow> w\<lparr>surveyManager := m\<lparr>currentStep := 2\<rparr>,
                       wsHandler := sendMessage throws (ProgramPlan (surveyId m)) (wsHandler w)\<rparr>)"

definition handlePlanReceived :: "frame \<Rightarrow> page \<Rightarrow> page" where
  "handlePlanReceived data w =
     (let m = (surveyManager w)\<lparr>plan := f_plan data\<rparr>
      in case f_plan data of
           None \<Rightarrow> w\<lparr>surveyManager := m, alerts := alerts w @ [FailureAlert PlanFailed]\<rparr>
         | Some p \<Rightarrow> w\<lparr>surveyManager := m\<lparr>currentStep := 3\<rparr>\<rparr>)"

text \<open>
  \<^verbatim>\<open>submitSurvey\<close>. With no survey, \<^verbatim>\<open>validateResponses\<close> throws and the \<^verbatim>\<open>catch\<close> reports
  through \<^verbatim>\<open>handleError\<close>. When validation fails the method returns before the send.
\<close>

definition submitSurvey ::
  "(answer \<Rightarrow> int option) \<Rightarrow> (outmsg \<Rightarrow> bool) \<Rightarrow> page \<Rightarrow> page" where
  "submitSurvey toNumber throws w =
     (case currentSurvey (surveyManager w) of
        None \<Rightarrow> w\<lparr>alerts := alerts w @ [FailureAlert SubmitFailed]\<rparr>
      | Some sv \<Rightarrow>
          (case validateResponses toNumber sv (surveyResponses (surveyManager w)) (errorMarks w) of
             (isValid, errors, marks) \<Rightarrow>
               if \<not> isValid
               then w\<lparr>errorMarks := marks, alerts := alerts w @ [ValidationAlert errors]\<rparr>
               else w\<lparr>errorMarks := marks,
                      wsHandler := sendMessage throws
                        (SurveySubmit (surveyId (surveyManager w)) (surveyResponses (surveyManager w)))
                        (wsHandler w)\<rparr>))"

text \<open>\<^verbatim>\<open>handleSectionReady\<close> and \<^verbatim>\<open>handleComplete\<close> of the connection handler.\<close>

definition handleSectionReady :: "frame \<Rightarrow> page \<Rightarrow> page" where
  "handleSectionReady response w =
     (case f_audio_file response of
        None \<Rightarrow> w
      | Some file \<Rightarrow>
          if file \<noteq> [] \<and> windowAudioManager w
          then w\<lparr>audioManager := addAudio (''http://localhost:8000'' @ file) (audioManager w)\<rparr>
          else w)"

definition handleComplete :: "page \<Rightarrow> page" where
  "handleComplete w =
     (if windowSurveyManager w then w\<lparr>surveyManager := resetSurvey (surveyManager w)\<rparr> else w)"

text \<open>
  The \<^verbatim>\<open>onmessage\<close> callback. The argument is \<open>None\<close> when \<^verbatim>\<open>JSON.parse\<close> throws. A frame
  with a truthy \<^verbatim>\<open>error\<close> is only logged; then the \<^verbatim>\<open>switch\<close> on \<^verbatim>\<open>type\<close>; a type that no
  case matches falls through to the \<^verbatim>\<open>status\<close> cases, all of which only log.
\<close>

definition onmessage :: "(outmsg \<Rightarrow> bool) \<Rightarrow> frame option \<Rightarrow> page \<Rightarrow> page" where
  "onmessage throws ev w =
     (case ev of
        None \<Rightarrow> w
      | Some response \<Rightarrow>
          if truthy (f_error response) then w
          else if truthy (f_type response) then
            (if f_type response = Some ''survey_generated''
               then (if surveyManagerBound w then handleSurveyGenerated response w else w)
             else if f_type response = Some ''survey_analysis''
               then (if surveyManagerBound w then handleAnalysisReceived throws response w else w)
             else if f_type response = Some ''program_plan''
               then (if surveyManagerBound w then handlePlanReceived response w else w)
             else if f_type response = Some ''section_ready''
               then handleSectionReady response w
             else if f_type response = Some ''complete''
               then handleComplete w
             else w)
          else w)"

text \<open>The values of \<^verbatim>\<open>type\<close> that have a case which changes the page's state.\<close>

definition recognised :: "string list" where
  "recognised = [''survey_generated'', ''survey_analysis'', ''program_plan'',
                 ''section_ready'', ''complete'']"

text \<open>The page once its scripts have run and the first socket is being opened.\<close>

definition loadedPage :: page where
  "loadedPage = \<lparr>wsHandler = constructor False, surveyManager = newSurveyManager,
                  surveyManagerBound = True, windowSurveyManager = False,
                  windowAudioManager = False, audioManager = newAudioManager,
                  alerts = [], errorMarks = []\<rparr>"


section \<open>Concrete states and inputs\<close>

text \<open>
  An environment in which nothing throws or rejects, one in which everything does, and
  one in which the transmission of the message \<open>1\<close> throws.
\<close>

definition noFailure :: "'x \<Rightarrow> bool" where
  "noFailure x = False"

definition alwaysFails :: "'x \<Rightarrow> bool" where
  "alwaysFails x = True"

text \<open>A conversion to a number that yields \<^verbatim>\<open>NaN\<close> for every string and array.\<close>

definition oneFails :: "nat \<Rightarrow> bool" where
  "oneFails m = (m = 1)"


text \<open>The handler after its constructor and the first \<^verbatim>\<open>open\<close> event.\<close>

definition connectedHandler :: "'m WebSocketHandler" where
  "connectedHandler = fresh\<lparr>ws := Some OPEN, socketsCreated := 1\<rparr>"

declare connectedHandler_def [code_unfold]

text \<open>On the open socket, a send of the message \<open>1\<close> has thrown.\<close>

definition afterFailedSend :: "nat WebSocketHandler" where
  "afterFailedSend = sendMessage alwaysFails 1 connectedHandler"

text \<open>
  The handler after \<open>k\<close> connection attempts in a row have ended in a \<^verbatim>\<open>close\<close> event,
  each followed by the timer it scheduled (for \<open>k\<close> up to the cap, where a timer is
  scheduled).
\<close>

fun closedTimes :: "nat \<Rightarrow> nat WebSocketHandler" where
  "closedTimes 0 = constructor False"
| "closedTimes (Suc k) = onTimer False (socketCloses (closedTimes k))"

text \<open>One segment was enqueued, played by \<^verbatim>\<open>togglePlayAll\<close>, and has ended.\<close>

definition playedOut :: "string AudioManager" where
  "playedOut =
     onEnded noFailure ''seg1'' (togglePlayAll noFailure (addAudio ''seg1'' newAudioManager))"

text \<open>Three segments, of which the second cannot be played; the first is playing.\<close>

definition secondBroken :: "string \<Rightarrow> bool" where
  "secondBroken a = (a = ''seg2'')"

definition playingFirst :: "string AudioManager" where
  "playingFirst =
     togglePlayAll secondBroken
       (addAudio ''seg3'' (addAudio ''seg2'' (addAudio ''seg1'' newAudioManager)))"

text \<open>A survey with one required text question, and the frames of one workflow.\<close>

definition nameQuestion :: question where
  "nameQuestion = \<lparr>question_id = ''q1'', title = ''Name'', required = True,
                    qtype = TextQuestion, validation = None\<rparr>"








definition exampleSurvey :: survey where
  "exampleSurvey = \<lparr>sections = [\<lparr>questions = [nameQuestion]\<rparr>]\<rparr>"

definition otherSurvey :: survey where
  "otherSurvey = \<lparr>sections = []\<rparr>"

definition blankFrame :: frame where
  "blankFrame = \<lparr>f_error = None, f_type = None, f_status = None, f_survey = None,
                  f_survey_id = None, f_analysis = None, f_plan = None, f_audio_file = None\<rparr>"

definition surveyFrame :: frame where
  "surveyFrame = blankFrame\<lparr>f_type := Some ''survey_generated'',
                            f_survey := Some exampleSurvey, f_survey_id := Some ''A''\<rparr>"

definition analysisFrame :: frame where
  "analysisFrame = blankFrame\<lparr>f_type := Some ''survey_analysis'', f_analysis := Some ''an''\<rparr>"

definition planFrame :: frame where
  "planFrame = blankFrame\<lparr>f_type := Some ''program_plan'', f_plan := Some ''pl''\<rparr>"

definition lateSurveyFrame :: frame where
  "lateSurveyFrame = blankFrame\<lparr>f_type := Some ''survey_generated'',
                                f_survey := Some otherSurvey, f_survey_id := Some ''B''\<rparr>"

definition errorFrame :: frame where
  "errorFrame = lateSurveyFrame\<lparr>f_error := Some ''failed''\<rparr>"

definition unknownFrame :: frame where
  "unknownFrame = blankFrame\<lparr>f_type := Some ''file_processed''\<rparr>"

definition statusFrame :: frame where
  "statusFrame = blankFrame\<lparr>f_status := Some ''processing''\<rparr>"






definition surveyStage :: page where
  "surveyStage = onmessage noFailure (Some surveyFrame) loadedPage"

definition planStage :: page where
  "planStage =
     onmessage noFailure (Some planFrame) (onmessage noFailure (Some analysisFrame) surveyStage)"


section \<open>The pending-send queue\<close>

lemma handleReconnect_keeps:
  "ws (handleReconnect s) = ws s \<and> messageQueue (handleReconnect s) = messageQueue s
   \<and> transmitted (handleReconnect s) = transmitted s"
  by (simp add: handleReconnect_def Let_def)

lemma offlineStep_closed:
  assumes "ws s \<noteq> Some OPEN"
  shows "ws (offlineStep throws s e) \<noteq> Some OPEN
    \<and> messageQueue (offlineStep throws s e) = messageQueue s @ sends [e]
    \<and> transmitted (offlineStep throws s e) = transmitted s"
proof (cases e)
  case (Send m)
  with assms show ?thesis by (simp add: sendMessage_def)
next
  case SocketCloses
  then show ?thesis
    by (cases "ws s") (simp_all add: socketCloses_def onclose_def handleReconnect_keeps)
next
  case (TimerFires c)
  with assms show ?thesis
    by (simp add: onTimer_def connect_def Let_def handleReconnect_keeps)
qed

lemma sends_append: "sends (xs @ ys) = sends xs @ sends ys"
  by (induction xs rule: sends.induct) simp_all

lemma runOffline_closed:
  "ws s \<noteq> Some OPEN \<Longrightarrow>
   ws (runOffline throws evs s) \<noteq> Some OPEN
   \<and> messageQueue (runOffline throws evs s) = messageQueue s @ sends evs
   \<and> transmitted (runOffline throws evs s) = transmitted s"
proof (induction evs rule: rev_induct)
  case Nil
  then show ?case by (simp add: runOffline_def)
next
  case (snoc e evs)
  let ?t = "runOffline throws evs s"
  have run: "runOffline throws (evs @ [e]) s = offlineStep throws ?t e"
    by (simp add: runOffline_def)
  from snoc have t: "ws ?t \<noteq> Some OPEN" "messageQueue ?t = messageQueue s @ sends evs"
    "transmitted ?t = transmitted s" by simp_all
  from offlineStep_closed[OF t(1), of throws e] t(2,3) show ?case
    unfolding run by (simp add: sends_append)
qed

lemma drainQueue_delivers:
  "ws s = Some OPEN \<Longrightarrow> messageQueue s = q \<Longrightarrow> \<forall>m\<in>set q. \<not> throws m \<Longrightarrow>
   drainQueue throws s = Some (s\<lparr>messageQueue := [], transmitted := transmitted s @ q\<rparr>)"
proof (induction q arbitrary: s)
  case Nil
  then show ?case by (subst drainQueue.simps) simp
next
  case (Cons m q)
  let ?t = "sendMessage throws m (s\<lparr>messageQueue := q\<rparr>)"
  have t: "?t = s\<lparr>messageQueue := q, transmitted := transmitted s @ [m]\<rparr>"
    using Cons.prems by (simp add: sendMessage_def)
  have "drainQueue throws s = drainQueue throws ?t"
    using Cons.prems(2) by (subst drainQueue.simps) simp
  also have "\<dots> = Some (?t\<lparr>messageQueue := [], transmitted := transmitted ?t @ q\<rparr>)"
    using Cons.prems by (intro Cons.IH) (simp_all add: t)
  finally show ?case by (simp add: t)
qed

lemma socketOpens_delivers:
  assumes "ws s \<noteq> None" and "\<forall>m\<in>set (messageQueue s). \<not> throws m"
  shows "socketOpens throws s =
    Some (s\<lparr>ws := Some OPEN, isConnecting := False, reconnectAttempts := 0,
            messageQueue := [], transmitted := transmitted s @ messageQueue s\<rparr>)"
proof -
  let ?t = "s\<lparr>ws := map_option (\<lambda>_. OPEN) (ws s), isConnecting := False, reconnectAttempts := 0\<rparr>"
  from assms(1) have op: "ws ?t = Some OPEN" by (cases "ws s") simp_all
  have "socketOpens throws s = drainQueue throws ?t"
    by (simp add: socketOpens_def onopen_def)
  also have "\<dots> = Some (?t\<lparr>messageQueue := [], transmitted := transmitted ?t @ messageQueue s\<rparr>)"
    using assms(2) op by (intro drainQueue_delivers) simp_all
  finally show ?thesis using op by simp
qed

text \<open>
  Claim C1, as amended. Messages sent while the socket is not open, in any interleaving
  with close events and reconnection timers, are appended to the pending queue in call
  order and nothing is transmitted. When the socket then opens, provided the
  transmission of no queued message throws, the \<^verbatim>\<open>onopen\<close> callback returns with the
  queue empty and with everything that was queued transmitted in the order issued, each
  message once; a send issued by a caller afterwards is transmitted after all of them.
\<close>

theorem pending_queue_fifo:
  assumes "ws s \<noteq> Some OPEN"
    and "ws (runOffline throws evs s) \<noteq> None"
    and "\<forall>m\<in>set (messageQueue s @ sends evs). \<not> throws m"
    and "\<not> throws m'"
  shows "messageQueue (runOffline throws evs s) = messageQueue s @ sends evs
    \<and> transmitted (runOffline throws evs s) = transmitted s
    \<and> (\<exists>s'. socketOpens throws (runOffline throws evs s) = Some s'
          \<and> messageQueue s' = []
          \<and> transmitted s' = transmitted s @ messageQueue s @ sends evs
          \<and> transmitted (sendMessage throws m' s')
              = transmitted s @ messageQueue s @ sends evs @ [m'])"
proof -
  let ?t = "runOffline throws evs s"
  note off = runOffline_closed[OF assms(1), of throws evs]
  have nothrow: "\<forall>m\<in>set (messageQueue ?t). \<not> throws m"
    using off assms(3) by simp
  note opened = socketOpens_delivers[OF assms(2) nothrow]
  show ?thesis
    using off opened assms(4) by (simp add: sendMessage_def)
qed

theorem pending_queue_fifo_witness:
  "ws (constructor False :: nat WebSocketHandler) \<noteq> Some OPEN
   \<and> ws (runOffline noFailure [Send 1, SocketCloses, Send 2, TimerFires False, Send 3]
           (constructor False :: nat WebSocketHandler)) \<noteq> None
   \<and> messageQueue (constructor False :: nat WebSocketHandler) = []
   \<and> sends [Send 1, SocketCloses, Send 2, TimerFires False, Send (3 :: nat)] = [1, 2, 3]
   \<and> \<not> noFailure (1 :: nat) \<and> \<not> noFailure (2 :: nat) \<and> \<not> noFailure (3 :: nat)
   \<and> \<not> noFailure (4 :: nat)
   \<and> messageQueue (runOffline noFailure [Send 1, SocketCloses, Send 2, TimerFires False, Send 3]
           (constructor False :: nat WebSocketHandler)) = [1, 2, 3]
   \<and> (\<exists>s'. socketOpens noFailure
              (runOffline noFailure [Send 1, SocketCloses, Send 2, TimerFires False, Send 3]
                 (constructor False :: nat WebSocketHandler)) = Some s'
          \<and> messageQueue s' = []
          \<and> transmitted s' = [1, 2, 3]
          \<and> transmitted (sendMessage noFailure 4 s') = [1, 2, 3, 4])"
proof -
  let ?s = "constructor False :: nat WebSocketHandler"
  let ?evs = "[Send 1, SocketCloses, Send 2, TimerFires False, Send 3] :: nat offlineEvent list"
  have s: "?s = fresh\<lparr>isConnecting := True, ws := Some CONNECTING, socketsCreated := 1\<rparr>"
    by (simp add: constructor_def connect_def fresh_def)
  have h1: "ws ?s \<noteq> Some OPEN" by (simp add: s)
  have h2: "ws (runOffline noFailure ?evs ?s) \<noteq> None"
    by (simp add: s fresh_def runOffline_def sendMessage_def socketCloses_def onclose_def
        handleReconnect_def onTimer_def connect_def Let_def)
  have q: "messageQueue ?s = []" "transmitted ?s = []" "sends ?evs = [1, 2, 3]"
    by (simp_all add: s fresh_def)
  have h3: "\<forall>m\<in>set (messageQueue ?s @ sends ?evs). \<not> noFailure m"
    by (simp add: noFailure_def)
  have h4: "\<not> noFailure (4 :: nat)" by (simp add: noFailure_def)
  have n: "\<not> noFailure (1 :: nat)" "\<not> noFailure (2 :: nat)" "\<not> noFailure (3 :: nat)"
    by (simp_all add: noFailure_def)
  from pending_queue_fifo[OF h1 h2 h3 h4] h1 h2 h4 n q show ?thesis
    by simp
qed

lemma constructor_state:
  "constructor False = fresh\<lparr>isConnecting := True, ws := Some CONNECTING, socketsCreated := 1\<rparr>"
  by (simp add: constructor_def connect_def fresh_def)

lemma first_open:
  "socketOpens throws (constructor False) = Some connectedHandler"
  by (subst socketOpens_delivers)
     (simp_all add: constructor_state connectedHandler_def fresh_def)

lemma drainQueue_keeps:
  assumes "drainQueue throws s = Some s'"
  shows "reconnectAttempts s' = reconnectAttempts s \<and> isConnecting s' = isConnecting s
    \<and> ws s' = ws s \<and> timers s' = timers s \<and> messageQueue s' = []"
proof (rule drainQueue.raw_induct[where P = "\<lambda>thr a b.
      reconnectAttempts b = reconnectAttempts a \<and> isConnecting b = isConnecting a
    \<and> ws b = ws a \<and> timers b = timers a \<and> messageQueue b = []", OF _ assms])
  fix dq :: "('a \<Rightarrow> bool) \<Rightarrow> 'a WebSocketHandler \<Rightarrow> 'a WebSocketHandler option"
    and thr a b
  assume IH: "\<And>thr a b. dq thr a = Some b \<Longrightarrow>
      reconnectAttempts b = reconnectAttempts a \<and> isConnecting b = isConnecting a
    \<and> ws b = ws a \<and> timers b = timers a \<and> messageQueue b = []"
    and run: "(case messageQueue a of [] \<Rightarrow> Some a
      | m # rest \<Rightarrow> dq thr (sendMessage thr m (a\<lparr>messageQueue := rest\<rparr>))) = Some b"
  show "reconnectAttempts b = reconnectAttempts a \<and> isConnecting b = isConnecting a
    \<and> ws b = ws a \<and> timers b = timers a \<and> messageQueue b = []"
  proof (cases "messageQueue a")
    case Nil
    with run show ?thesis by simp
  next
    case (Cons m rest)
    with run have "dq thr (sendMessage thr m (a\<lparr>messageQueue := rest\<rparr>)) = Some b"
      by simp
    from IH[OF this] show ?thesis by (simp add: sendMessage_def split: if_splits)
  qed
qed

lemma onopen_resets:
  "onopen throws s = Some s' \<Longrightarrow> reconnectAttempts s' = 0 \<and> isConnecting s' = False"
  by (auto simp: onopen_def dest: drainQueue_keeps)

section \<open>Reconnection\<close>

text \<open>
  Claim C4. When the attempt counter is below the cap, \<^verbatim>\<open>handleReconnect\<close> counts
  attempt \<open>n\<close> and schedules one retry after \<open>reconnectDelay * 1.5 ^ (n - 1)\<close>; when the
  counter has reached the cap it schedules nothing and changes nothing; and whenever
  the \<^verbatim>\<open>open\<close> event's callback returns, the counter is zero (it does return when the
  queued messages can be transmitted). The constructor sets the delay to 3000 and the
  cap to 5 and nothing assigns them afterwards.
\<close>

theorem reconnect_backoff:
  "(reconnectAttempts s < maxReconnectAttempts s \<longrightarrow>
      reconnectAttempts (handleReconnect s) = reconnectAttempts s + 1
      \<and> timers (handleReconnect s) =
          timers s @ [reconnectDelay s * (3 / 2) ^ (reconnectAttempts (handleReconnect s) - 1)])
   \<and> (maxReconnectAttempts s \<le> reconnectAttempts s \<longrightarrow> handleReconnect s = s)
   \<and> (\<forall>s'. socketOpens throws s = Some s' \<longrightarrow> reconnectAttempts s' = 0)
   \<and> (ws s \<noteq> None \<and> (\<forall>m\<in>set (messageQueue s). \<not> throws m) \<longrightarrow>
        (\<exists>s'. socketOpens throws s = Some s' \<and> reconnectAttempts s' = 0))"
proof (intro conjI impI allI)
  assume "reconnectAttempts s < maxReconnectAttempts s"
  then show "reconnectAttempts (handleReconnect s) = reconnectAttempts s + 1"
    and "timers (handleReconnect s) =
          timers s @ [reconnectDelay s * (3 / 2) ^ (reconnectAttempts (handleReconnect s) - 1)]"
    by (simp_all add: handleReconnect_def Let_def)
next
  assume "maxReconnectAttempts s \<le> reconnectAttempts s"
  then show "handleReconnect s = s" by (simp add: handleReconnect_def)
next
  fix s' assume "socketOpens throws s = Some s'"
  then show "reconnectAttempts s' = 0"
    by (simp add: socketOpens_def onopen_resets)
next
  assume "ws s \<noteq> None \<and> (\<forall>m\<in>set (messageQueue s). \<not> throws m)"
  then show "\<exists>s'. socketOpens throws s = Some s' \<and> reconnectAttempts s' = 0"
    by (simp add: socketOpens_delivers)
qed

lemma closedTimes_4:
  "closedTimes 4 = fresh\<lparr>ws := Some CONNECTING, isConnecting := True, socketsCreated := 5,
      reconnectAttempts := 4, timers := [3000, 4500, 6750, 10125]\<rparr>"
  by (simp add: numeral_eq_Suc constructor_state fresh_def onTimer_def socketCloses_def onclose_def
      handleReconnect_def connect_def Let_def)

lemma closedTimes_5:
  "closedTimes 5 = fresh\<lparr>ws := Some CONNECTING, isConnecting := True, socketsCreated := 6,
      reconnectAttempts := 5, timers := [3000, 4500, 6750, 10125, 30375 / 2]\<rparr>"
  by (simp add: numeral_eq_Suc constructor_state fresh_def onTimer_def socketCloses_def onclose_def
      handleReconnect_def connect_def Let_def)

text \<open>
  Four failed attempts in a row from the constructor's state: the fifth delay is
  \<open>3000 * 1.5 ^ 4 = 15187.5\<close>, the sixth close schedules nothing, an open resets the counter.
\<close>

theorem reconnect_backoff_witness:
  "reconnectAttempts (closedTimes 4) = 4 \<and> maxReconnectAttempts (closedTimes 4) = 5
   \<and> reconnectDelay (closedTimes 4) = 3000
   \<and> reconnectAttempts (handleReconnect (closedTimes 4)) = 5
   \<and> timers (handleReconnect (closedTimes 4)) = [3000, 4500, 6750, 10125, 30375 / 2]
   \<and> reconnectAttempts (closedTimes 5) = 5 \<and> maxReconnectAttempts (closedTimes 5) = 5
   \<and> handleReconnect (closedTimes 5) = closedTimes 5
   \<and> ws (closedTimes 5) = Some CONNECTING \<and> messageQueue (closedTimes 5) = []
   \<and> (\<exists>s'. socketOpens noFailure (closedTimes 5) = Some s' \<and> reconnectAttempts s' = 0)"
proof -
  have a: "reconnectAttempts (closedTimes 4) = 4" "maxReconnectAttempts (closedTimes 4) = 5"
    "reconnectDelay (closedTimes 4) = 3000" "timers (closedTimes 4) = [3000, 4500, 6750, 10125]"
    by (simp_all add: closedTimes_4 fresh_def)
  have b: "reconnectAttempts (closedTimes 5) = 5" "maxReconnectAttempts (closedTimes 5) = 5"
    "ws (closedTimes 5) = Some CONNECTING" "messageQueue (closedTimes 5) = []"
    by (simp_all add: closedTimes_5 fresh_def)
  from reconnect_backoff[of "closedTimes 4" noFailure] a
  have c: "reconnectAttempts (handleReconnect (closedTimes 4)) = 5"
    "timers (handleReconnect (closedTimes 4)) = [3000, 4500, 6750, 10125, 30375 / 2]"
    by (simp_all add: power_divide)
  from reconnect_backoff[of "closedTimes 5" noFailure] b
  have d: "handleReconnect (closedTimes 5) = closedTimes 5"
    "\<exists>s'. socketOpens noFailure (closedTimes 5) = Some s' \<and> reconnectAttempts s' = 0"
    by simp_all
  from a b c d show ?thesis by simp
qed

section \<open>A send that throws\<close>

text \<open>
  Claim C5, as amended. When the socket is open and the transmission of a message throws,
  \<^verbatim>\<open>sendMessage\<close> keeps the message by appending it at the end of the pending queue,
  behind whatever is already queued; nothing is transmitted.
\<close>

theorem failed_send_requeued_last:
  "ws s = Some OPEN \<and> throws m \<longrightarrow>
     messageQueue (sendMessage throws m s) = messageQueue s @ [m]
     \<and> transmitted (sendMessage throws m s) = transmitted s"
  by (simp add: sendMessage_def)

lemma afterFailedSend_state:
  "afterFailedSend = fresh\<lparr>ws := Some OPEN, socketsCreated := 1, messageQueue := [1]\<rparr>"
  by (simp add: afterFailedSend_def connectedHandler_def sendMessage_def alwaysFails_def fresh_def)

theorem failed_send_requeued_last_witness:
  "ws afterFailedSend = Some OPEN \<and> alwaysFails (2 :: nat)
   \<and> messageQueue afterFailedSend = [1]
   \<and> messageQueue (sendMessage alwaysFails 2 afterFailedSend) = [1, 2]
   \<and> transmitted (sendMessage alwaysFails 2 afterFailedSend) = []"
proof -
  have a: "ws afterFailedSend = Some OPEN" "messageQueue afterFailedSend = [1]"
    "transmitted afterFailedSend = []"
    by (simp_all add: afterFailedSend_state fresh_def)
  have b: "alwaysFails (2 :: nat)" by (simp add: alwaysFails_def)
  from failed_send_requeued_last[of afterFailedSend alwaysFails 2] a b show ?thesis by simp
qed

text \<open>
  Claim C5 as stated fails: after the handler has connected and the send of message 1
  has thrown, a second failing send of message 2 leaves the queue \<open>[1, 2]\<close>, so the
  failed message is not at the front.
\<close>

theorem failed_send_not_at_front:
  "socketOpens alwaysFails (constructor False :: nat WebSocketHandler) = Some connectedHandler
   \<and> afterFailedSend = sendMessage alwaysFails 1 connectedHandler
   \<and> ws afterFailedSend = Some OPEN \<and> alwaysFails (2 :: nat)
   \<and> messageQueue afterFailedSend = [1]
   \<and> messageQueue (sendMessage alwaysFails 2 afterFailedSend) = [1, 2]
   \<and> messageQueue (sendMessage alwaysFails 2 afterFailedSend) \<noteq> 2 # messageQueue afterFailedSend"
proof -
  have a: "ws afterFailedSend = Some OPEN" "messageQueue afterFailedSend = [1]"
    by (simp_all add: afterFailedSend_state fresh_def)
  have b: "alwaysFails (2 :: nat)" by (simp add: alwaysFails_def)
  have c: "messageQueue (sendMessage alwaysFails 2 afterFailedSend) = [1, 2]"
    using a b by (simp add: sendMessage_def)
  have d: "afterFailedSend = sendMessage alwaysFails 1 connectedHandler"
    by (simp add: afterFailedSend_def)
  from a b c have "messageQueue (sendMessage alwaysFails 2 afterFailedSend)
      \<noteq> 2 # messageQueue afterFailedSend" by simp
  with a b c d first_open[of alwaysFails] show ?thesis by blast
qed

text \<open>
  What the append at the end means for the loop of the \<^verbatim>\<open>onopen\<close> callback: a message
  whose transmission throws is taken from the head, put back at the end and met again,
  so the callback returns only if no queued message throws.
\<close>

lemma drainQueue_returns_only_without_throw:
  assumes "drainQueue throws s = Some s'"
  shows "\<not> (ws s = Some OPEN \<and> (\<exists>m\<in>set (messageQueue s). throws m))"
proof (rule drainQueue.raw_induct[where P = "\<lambda>thr a b.
      \<not> (ws a = Some OPEN \<and> (\<exists>m\<in>set (messageQueue a). thr m))", OF _ assms])
  fix dq :: "('a \<Rightarrow> bool) \<Rightarrow> 'a WebSocketHandler \<Rightarrow> 'a WebSocketHandler option"
    and thr a b
  assume IH: "\<And>thr a b. dq thr a = Some b \<Longrightarrow>
      \<not> (ws a = Some OPEN \<and> (\<exists>m\<in>set (messageQueue a). thr m))"
    and run: "(case messageQueue a of [] \<Rightarrow> Some a
      | m # rest \<Rightarrow> dq thr (sendMessage thr m (a\<lparr>messageQueue := rest\<rparr>))) = Some b"
  show "\<not> (ws a = Some OPEN \<and> (\<exists>m\<in>set (messageQueue a). thr m))"
  proof (cases "messageQueue a")
    case Nil
    then show ?thesis by simp
  next
    case (Cons m rest)
    with run have "dq thr (sendMessage thr m (a\<lparr>messageQueue := rest\<rparr>)) = Some b"
      by simp
    from IH[OF this]
    have no: "\<not> (ws (sendMessage thr m (a\<lparr>messageQueue := rest\<rparr>)) = Some OPEN
        \<and> (\<exists>x\<in>set (messageQueue (sendMessage thr m (a\<lparr>messageQueue := rest\<rparr>))). thr x))" .
    show ?thesis
    proof
      assume h: "ws a = Some OPEN \<and> (\<exists>x\<in>set (messageQueue a). thr x)"
      then have op: "ws a = Some OPEN" by simp
      have w: "ws (sendMessage thr m (a\<lparr>messageQueue := rest\<rparr>)) = Some OPEN"
        using op by (simp add: sendMessage_def)
      have q: "messageQueue (sendMessage thr m (a\<lparr>messageQueue := rest\<rparr>))
          = (if thr m then rest @ [m] else rest)"
        using op by (simp add: sendMessage_def)
      from h Cons have "thr m \<or> (\<exists>x\<in>set rest. thr x)" by simp
      then have "\<exists>x\<in>set (if thr m then rest @ [m] else rest). thr x" by auto
      with no w q show False by simp
    qed
  qed
qed

lemma drainQueue_never_returns:
  "ws s = Some OPEN \<Longrightarrow> m \<in> set (messageQueue s) \<Longrightarrow> throws m \<Longrightarrow>
   drainQueue throws s = None"
  using drainQueue_returns_only_without_throw[of throws s]
  by (cases "drainQueue throws s") auto

text \<open>
  Claim C1 as stated fails for a sequence of sends of which one cannot be transmitted:
  messages 1 and 2 are sent while the first socket is connecting, and the transmission
  of message 1 throws. When the socket opens the queue is not drained: the \<^verbatim>\<open>onopen\<close>
  callback never returns, and message 1 is never transmitted.
\<close>

theorem throwing_send_blocks_drain:
  "ws (constructor False :: nat WebSocketHandler) = Some CONNECTING
   \<and> messageQueue (runOffline oneFails [Send 1, Send 2] (constructor False)) = [1, 2]
   \<and> transmitted (runOffline oneFails [Send 1, Send 2] (constructor False)) = []
   \<and> oneFails 1 \<and> \<not> oneFails 2
   \<and> socketOpens oneFails (runOffline oneFails [Send 1, Send 2] (constructor False)) = None"
proof -
  let ?s = "runOffline oneFails [Send 1, Send 2] (constructor False :: nat WebSocketHandler)"
  have s: "?s = (constructor False)\<lparr>messageQueue := [1, 2]\<rparr>"
    by (simp add: runOffline_def sendMessage_def constructor_state fresh_def)
  have a: "ws (constructor False :: nat WebSocketHandler) = Some CONNECTING"
    "messageQueue ?s = [1, 2]" "transmitted ?s = []"
    unfolding s by (simp_all add: constructor_state fresh_def)
  have f: "oneFails 1" "\<not> oneFails 2" by (simp_all add: oneFails_def)
  let ?t = "?s\<lparr>ws := map_option (\<lambda>_. OPEN) (ws ?s), isConnecting := False,
               reconnectAttempts := 0\<rparr>"
  have "ws ?t = Some OPEN" "1 \<in> set (messageQueue ?t)"
    unfolding s by (simp_all add: constructor_state)
  then have "drainQueue oneFails ?t = None"
    using f(1) by (rule drainQueue_never_returns)
  then have d: "socketOpens oneFails ?s = None"
    by (simp add: socketOpens_def onopen_def)
  from a f d show ?thesis by blast
qed

section \<open>Calling connect again\<close>

text \<open>
  Claim C8, as amended. \<^verbatim>\<open>connect\<close> is a no-op while a connection attempt is in progress
  (\<^verbatim>\<open>isConnecting\<close> is set). The flag is cleared by the \<^verbatim>\<open>open\<close> event, so a call made
  while connected is not a no-op: it constructs another WebSocket and the handler refers
  to that one from then on.
\<close>

theorem connect_noop_while_connecting:
  "(isConnecting s \<longrightarrow> connect ctor_throws s = s)
   \<and> (\<not> isConnecting s \<longrightarrow>
        connect False s = s\<lparr>isConnecting := True, ws := Some CONNECTING,
                             socketsCreated := socketsCreated s + 1\<rparr>)"
  by (simp add: connect_def)

theorem connect_noop_while_connecting_witness:
  "isConnecting (constructor False :: nat WebSocketHandler)
   \<and> connect False (constructor False :: nat WebSocketHandler) = constructor False
   \<and> \<not> isConnecting (connectedHandler :: nat WebSocketHandler)
   \<and> connect False (connectedHandler :: nat WebSocketHandler)
       = connectedHandler\<lparr>isConnecting := True, ws := Some CONNECTING, socketsCreated := 2\<rparr>"
proof -
  have a: "isConnecting (constructor False :: nat WebSocketHandler)"
    by (simp add: constructor_state)
  have b: "\<not> isConnecting (connectedHandler :: nat WebSocketHandler)"
    "socketsCreated (connectedHandler :: nat WebSocketHandler) = 1"
    by (simp_all add: connectedHandler_def fresh_def)
  from connect_noop_while_connecting[of "constructor False :: nat WebSocketHandler" False]
    connect_noop_while_connecting[of "connectedHandler :: nat WebSocketHandler" False] a b
  show ?thesis by simp
qed

text \<open>
  Claim C8 as stated fails for the connected half: on the handler whose first socket has
  opened, \<^verbatim>\<open>connect\<close> creates a second socket and replaces the reference to the open one.
\<close>

theorem connect_while_connected_not_noop:
  "socketOpens noFailure (constructor False :: nat WebSocketHandler) = Some connectedHandler
   \<and> ws (connectedHandler :: nat WebSocketHandler) = Some OPEN
   \<and> socketsCreated (connectedHandler :: nat WebSocketHandler) = 1
   \<and> connect False (connectedHandler :: nat WebSocketHandler) \<noteq> connectedHandler
   \<and> ws (connect False (connectedHandler :: nat WebSocketHandler)) = Some CONNECTING
   \<and> socketsCreated (connect False (connectedHandler :: nat WebSocketHandler)) = 2"
proof -
  have "ws (connect False (connectedHandler :: nat WebSocketHandler)) = Some CONNECTING"
    by (simp add: connect_def connectedHandler_def fresh_def)
  moreover have "ws (connectedHandler :: nat WebSocketHandler) = Some OPEN"
    by (simp add: connectedHandler_def fresh_def)
  ultimately have "connect False (connectedHandler :: nat WebSocketHandler) \<noteq> connectedHandler"
    by auto
  then show ?thesis
    by (simp add: first_open) (simp add: connect_def connectedHandler_def fresh_def)
qed

section \<open>Playback\<close>

lemma playNext_at_end:
  "int (length (audioQueue s)) \<le> currentAudioIndex s + 1 \<Longrightarrow>
   playNext rejects s = s\<lparr>currentAudioIndex := -1, isPlaying := False, currentAudio := None\<rparr>"
  by (subst playNext.simps) (simp add: Let_def)

lemma playNext_plays:
  "currentAudioIndex s = int i - 1 \<Longrightarrow> i < length (audioQueue s) \<Longrightarrow>
   \<not> rejects (audioQueue s ! i) \<Longrightarrow>
   playNext rejects s =
     s\<lparr>currentAudioIndex := int i, currentAudio := Some (audioQueue s ! i), isPlaying := True\<rparr>"
  by (subst playNext.simps) (simp add: Let_def)

lemma playNext_rejected:
  "currentAudioIndex s = int i - 1 \<Longrightarrow> i < length (audioQueue s) \<Longrightarrow>
   rejects (audioQueue s ! i) \<Longrightarrow>
   playNext rejects s =
     playNext rejects (s\<lparr>currentAudioIndex := int i, currentAudio := Some (audioQueue s ! i),
                         playErrors := playErrors s @ [int i]\<rparr>)"
  by (subst playNext.simps) (simp add: Let_def)

lemma playNext_skips:
  "currentAudioIndex s = int i - 1 \<Longrightarrow> i \<le> j \<Longrightarrow> j < length (audioQueue s) \<Longrightarrow>
   \<forall>k. i \<le> k \<and> k < j \<longrightarrow> rejects (audioQueue s ! k) \<Longrightarrow>
   \<not> rejects (audioQueue s ! j) \<Longrightarrow>
   playNext rejects s =
     s\<lparr>currentAudioIndex := int j, currentAudio := Some (audioQueue s ! j), isPlaying := True,
       playErrors := playErrors s @ map int [i..<j]\<rparr>"
proof (induction "j - i" arbitrary: i s)
  case 0
  then have "i = j" by simp
  with 0 show ?case by (simp add: playNext_plays)
next
  case (Suc d)
  then have lt: "i < j" and rej: "rejects (audioQueue s ! i)" by auto
  let ?t = "s\<lparr>currentAudioIndex := int i, currentAudio := Some (audioQueue s ! i),
                playErrors := playErrors s @ [int i]\<rparr>"
  have "playNext rejects s = playNext rejects ?t"
    using Suc.prems lt rej by (intro playNext_rejected) auto
  also have "\<dots> = ?t\<lparr>currentAudioIndex := int j, currentAudio := Some (audioQueue ?t ! j),
        isPlaying := True, playErrors := playErrors ?t @ map int [Suc i..<j]\<rparr>"
    using Suc.prems Suc.hyps(2) lt by (intro Suc.hyps(1)) auto
  finally show ?case using lt by (simp add: upt_conv_Cons)
qed

lemma playNext_all_rejected:
  "currentAudioIndex s = int i - 1 \<Longrightarrow> i \<le> length (audioQueue s) \<Longrightarrow>
   \<forall>k. i \<le> k \<and> k < length (audioQueue s) \<longrightarrow> rejects (audioQueue s ! k) \<Longrightarrow>
   playNext rejects s =
     s\<lparr>currentAudioIndex := -1, isPlaying := False, currentAudio := None,
       playErrors := playErrors s @ map int [i..<length (audioQueue s)]\<rparr>"
proof (induction "length (audioQueue s) - i" arbitrary: i s)
  case 0
  then have "i = length (audioQueue s)" by simp
  with 0 show ?case by (simp add: playNext_at_end)
next
  case (Suc d)
  then have lt: "i < length (audioQueue s)" and rej: "rejects (audioQueue s ! i)" by auto
  let ?t = "s\<lparr>currentAudioIndex := int i, currentAudio := Some (audioQueue s ! i),
                playErrors := playErrors s @ [int i]\<rparr>"
  have "playNext rejects s = playNext rejects ?t"
    using Suc.prems lt rej by (intro playNext_rejected) auto
  also have "\<dots> = ?t\<lparr>currentAudioIndex := -1, isPlaying := False, currentAudio := None,
        playErrors := playErrors ?t @ map int [Suc i..<length (audioQueue ?t)]\<rparr>"
    using Suc.prems Suc.hyps(2) lt by (intro Suc.hyps(1)) auto
  finally show ?case using lt by (simp add: upt_conv_Cons)
qed



text \<open>
  Claim C7, as amended. Let the cursor stand before position \<open>i\<close> and let \<^verbatim>\<open>play()\<close> reject
  in \<^verbatim>\<open>playNext\<close> for the segments at \<open>i, ..., j - 1\<close> but not for the one at \<open>j\<close>. Then
  \<^verbatim>\<open>playNext\<close> logs each of the failures, moves the cursor past the failed segments and
  ends playing segment \<open>j\<close>: such a failure does not stop the rest of the queue. When
  every remaining segment fails, each failure is logged and the queue ends as it does
  after its last segment. The other two errors of a segment are only logged: the
  \<^verbatim>\<open>error\<close> event of an audio leaves the manager as it is, and so does a \<^verbatim>\<open>play()\<close> that
  rejects in \<^verbatim>\<open>resumeCurrent\<close>.
\<close>

theorem failed_segment_skipped:
  "(currentAudioIndex s = int i - 1 \<and> i < j \<and> j < length (audioQueue s)
      \<and> (\<forall>k. i \<le> k \<and> k < j \<longrightarrow> rejects (audioQueue s ! k))
      \<and> \<not> rejects (audioQueue s ! j)
    \<longrightarrow> playNext rejects s =
          s\<lparr>currentAudioIndex := int j, currentAudio := Some (audioQueue s ! j),
            isPlaying := True, playErrors := playErrors s @ map int [i..<j]\<rparr>)
   \<and> (currentAudioIndex s = int i - 1 \<and> i < length (audioQueue s)
      \<and> (\<forall>k. i \<le> k \<and> k < length (audioQueue s) \<longrightarrow> rejects (audioQueue s ! k))
    \<longrightarrow> playNext rejects s =
          s\<lparr>currentAudioIndex := -1, isPlaying := False, currentAudio := None,
            playErrors := playErrors s @ map int [i..<length (audioQueue s)]\<rparr>)
   \<and> onError audio s = ([audio], s)
   \<and> (currentAudio s = Some audio \<and> rejects audio \<longrightarrow> resumeCurrent rejects s = s)"
  using playNext_skips[of s i j rejects] playNext_all_rejected[of s i rejects]
  by (simp add: onError_def resumeCurrent_def)

lemma playingFirst_state:
  "playingFirst = \<lparr>audioQueue = [''seg1'', ''seg2'', ''seg3''], currentAudioIndex = 0,
     isPlaying = True, currentAudio = Some ''seg1'', playErrors = []\<rparr>"
  by (simp add: playingFirst_def togglePlayAll_def addAudio_def newAudioManager_def
      secondBroken_def playNext.simps Let_def)

text \<open>
  Three segments of which the second cannot be played: when the first ends, the third
  plays and one failure (at position 1) is logged.
\<close>

theorem failed_segment_skipped_witness:
  "currentAudioIndex playingFirst = int 1 - 1 \<and> (1 :: nat) < 2
   \<and> 2 < length (audioQueue playingFirst)
   \<and> secondBroken (audioQueue playingFirst ! 1) \<and> \<not> secondBroken (audioQueue playingFirst ! 2)
   \<and> onEnded secondBroken ''seg1'' playingFirst = playNext secondBroken playingFirst
   \<and> playNext secondBroken playingFirst =
        \<lparr>audioQueue = [''seg1'', ''seg2'', ''seg3''], currentAudioIndex = 2,
         isPlaying = True, currentAudio = Some ''seg3'', playErrors = [1]\<rparr>
   \<and> playNext alwaysFails playingFirst =
        \<lparr>audioQueue = [''seg1'', ''seg2'', ''seg3''], currentAudioIndex = -1,
         isPlaying = False, currentAudio = None, playErrors = [1, 2]\<rparr>
   \<and> onError ''seg1'' playingFirst = ([''seg1''], playingFirst)
   \<and> currentAudio (pauseCurrent playingFirst) = Some ''seg1'' \<and> alwaysFails ''seg1''
   \<and> resumeCurrent alwaysFails (pauseCurrent playingFirst) = pauseCurrent playingFirst"
proof -
  have a: "currentAudioIndex playingFirst = int 1 - 1" "2 < length (audioQueue playingFirst)"
    "secondBroken (audioQueue playingFirst ! 1)" "\<not> secondBroken (audioQueue playingFirst ! 2)"
    "onEnded secondBroken ''seg1'' playingFirst = playNext secondBroken playingFirst"
    by (simp_all add: playingFirst_state secondBroken_def onEnded_def)
  have k: "\<forall>k. (1 :: nat) \<le> k \<and> k < 2 \<longrightarrow> secondBroken (audioQueue playingFirst ! k)"
  proof (intro allI impI)
    fix k :: nat assume "1 \<le> k \<and> k < 2"
    then have "k = 1" by simp
    with a(3) show "secondBroken (audioQueue playingFirst ! k)" by simp
  qed
  have l: "\<forall>k. (1 :: nat) \<le> k \<and> k < length (audioQueue playingFirst)
      \<longrightarrow> alwaysFails (audioQueue playingFirst ! k)"
    by (simp add: alwaysFails_def)
  have u: "[Suc 0..<2] = [Suc 0]" "[Suc 0..<3] = [Suc 0, 2]"
    by (simp_all add: upt_conv_Cons)
  from failed_segment_skipped[of playingFirst 1 2 secondBroken] a k
  have b: "playNext secondBroken playingFirst =
        \<lparr>audioQueue = [''seg1'', ''seg2'', ''seg3''], currentAudioIndex = 2,
         isPlaying = True, currentAudio = Some ''seg3'', playErrors = [1]\<rparr>"
    by (simp add: playingFirst_state u)
  from failed_segment_skipped[of playingFirst 1 2 alwaysFails] a(1) l
  have c: "playNext alwaysFails playingFirst =
        \<lparr>audioQueue = [''seg1'', ''seg2'', ''seg3''], currentAudioIndex = -1,
         isPlaying = False, currentAudio = None, playErrors = [1, 2]\<rparr>"
    by (simp add: playingFirst_state u)
  have p: "currentAudio (pauseCurrent playingFirst) = Some ''seg1''" "alwaysFails ''seg1''"
    by (simp_all add: playingFirst_state pauseCurrent_def alwaysFails_def)
  from failed_segment_skipped[of playingFirst 1 2 secondBroken "''seg1''"]
  have d: "onError ''seg1'' playingFirst = ([''seg1''], playingFirst)" by blast
  from failed_segment_skipped[of "pauseCurrent playingFirst" 1 2 alwaysFails "''seg1''"] p
  have e: "resumeCurrent alwaysFails (pauseCurrent playingFirst) = pauseCurrent playingFirst"
    by blast
  from a b c d e p show ?thesis by simp
qed

text \<open>
  Claim C7 as stated fails for the errors that \<^verbatim>\<open>playNext\<close> does not catch. While the
  first of three segments is playing, its \<^verbatim>\<open>error\<close> event is logged and nothing else
  happens: the cursor stays on the failed segment and no later segment is started. And
  when the paused segment cannot be resumed, pressing play leaves the queue where it is.
\<close>

theorem media_error_not_skipped:
  "audioQueue playingFirst = [''seg1'', ''seg2'', ''seg3'']
   \<and> currentAudioIndex playingFirst = 0 \<and> currentAudio playingFirst = Some ''seg1''
   \<and> fst (onError ''seg1'' playingFirst) = [''seg1'']
   \<and> snd (onError ''seg1'' playingFirst) = playingFirst
   \<and> currentAudioIndex (snd (onError ''seg1'' playingFirst)) = 0
   \<and> currentAudio (snd (onError ''seg1'' playingFirst)) = Some ''seg1''
   \<and> alwaysFails ''seg1''
   \<and> togglePlayAll alwaysFails (pauseCurrent playingFirst) = pauseCurrent playingFirst
   \<and> currentAudioIndex (togglePlayAll alwaysFails (pauseCurrent playingFirst)) = 0
   \<and> \<not> isPlaying (togglePlayAll alwaysFails (pauseCurrent playingFirst))"
  by (simp add: playingFirst_state onError_def togglePlayAll_def pauseCurrent_def
      resumeCurrent_def alwaysFails_def)

text \<open>
  Claim C3, as amended. When playback runs past the last enqueued segment, \<^verbatim>\<open>playNext\<close>
  stops the queue: the cursor is reset to \<open>-1\<close>, \<^verbatim>\<open>isPlaying\<close> is false and there is no
  current audio. \<^verbatim>\<open>addAudio\<close> appends the segment and changes nothing else, so it never
  starts or resumes playback. Playback continues only when the user presses play, and
  then from the first segment of the queue.
\<close>

theorem playback_stops_at_queue_end:
  "(int (length (audioQueue s)) \<le> currentAudioIndex s + 1 \<longrightarrow>
      playNext rejects s = s\<lparr>currentAudioIndex := -1, isPlaying := False, currentAudio := None\<rparr>)
   \<and> isPlaying (addAudio a s) = isPlaying s
   \<and> currentAudio (addAudio a s) = currentAudio s
   \<and> currentAudioIndex (addAudio a s) = currentAudioIndex s
   \<and> audioQueue (addAudio a s) = audioQueue s @ [a]
   \<and> (\<not> isPlaying s \<and> currentAudioIndex s = -1 \<and> audioQueue s \<noteq> []
        \<and> \<not> rejects (audioQueue s ! 0) \<longrightarrow>
      togglePlayAll rejects s =
        s\<lparr>currentAudioIndex := 0, currentAudio := Some (audioQueue s ! 0), isPlaying := True\<rparr>)"
proof (intro conjI impI)
  assume "int (length (audioQueue s)) \<le> currentAudioIndex s + 1"
  then show "playNext rejects s
      = s\<lparr>currentAudioIndex := -1, isPlaying := False, currentAudio := None\<rparr>"
    by (rule playNext_at_end)
next
  assume h: "\<not> isPlaying s \<and> currentAudioIndex s = -1 \<and> audioQueue s \<noteq> []
        \<and> \<not> rejects (audioQueue s ! 0)"
  then have "playNext rejects (s\<lparr>currentAudioIndex := -1\<rparr>) =
     (s\<lparr>currentAudioIndex := -1\<rparr>)\<lparr>currentAudioIndex := int 0,
        currentAudio := Some (audioQueue (s\<lparr>currentAudioIndex := -1\<rparr>) ! 0), isPlaying := True\<rparr>"
    by (intro playNext_plays) simp_all
  with h show "togglePlayAll rejects s =
        s\<lparr>currentAudioIndex := 0, currentAudio := Some (audioQueue s ! 0), isPlaying := True\<rparr>"
    by (simp add: togglePlayAll_def)
qed (simp_all add: addAudio_def)

lemma playedOut_state:
  "playedOut = \<lparr>audioQueue = [''seg1''], currentAudioIndex = -1, isPlaying = False,
     currentAudio = None, playErrors = []\<rparr>"
  by (simp add: playedOut_def onEnded_def togglePlayAll_def addAudio_def newAudioManager_def
      noFailure_def playNext.simps Let_def)

lemma playingOnly_state:
  "togglePlayAll noFailure (addAudio ''seg1'' newAudioManager) =
     \<lparr>audioQueue = [''seg1''], currentAudioIndex = 0, isPlaying = True,
      currentAudio = Some ''seg1'', playErrors = []\<rparr>"
  by (simp add: togglePlayAll_def addAudio_def newAudioManager_def
      noFailure_def playNext.simps Let_def)

text \<open>
  One segment is played to its end; a second one arrives; pressing play starts again
  with the first.
\<close>

theorem playback_stops_at_queue_end_witness:
  "int (length (audioQueue (togglePlayAll noFailure (addAudio ''seg1'' newAudioManager))))
      \<le> currentAudioIndex (togglePlayAll noFailure (addAudio ''seg1'' newAudioManager)) + 1
   \<and> playNext noFailure (togglePlayAll noFailure (addAudio ''seg1'' newAudioManager)) = playedOut
   \<and> isPlaying (addAudio ''seg2'' playedOut) = isPlaying playedOut
   \<and> \<not> isPlaying (addAudio ''seg2'' playedOut)
   \<and> currentAudioIndex (addAudio ''seg2'' playedOut) = -1
   \<and> audioQueue (addAudio ''seg2'' playedOut) \<noteq> []
   \<and> \<not> noFailure (audioQueue (addAudio ''seg2'' playedOut) ! 0)
   \<and> togglePlayAll noFailure (addAudio ''seg2'' playedOut) =
       \<lparr>audioQueue = [''seg1'', ''seg2''], currentAudioIndex = 0, isPlaying = True,
        currentAudio = Some ''seg1'', playErrors = []\<rparr>"
proof -
  let ?p = "togglePlayAll noFailure (addAudio ''seg1'' newAudioManager)"
  let ?q = "addAudio ''seg2'' playedOut"
  have a: "int (length (audioQueue ?p)) \<le> currentAudioIndex ?p + 1"
    by (simp add: playingOnly_state)
  have q: "?q = \<lparr>audioQueue = [''seg1'', ''seg2''], currentAudioIndex = -1, isPlaying = False,
     currentAudio = None, playErrors = []\<rparr>"
    by (simp add: playedOut_state addAudio_def)
  have b: "\<not> isPlaying ?q" "currentAudioIndex ?q = -1" "audioQueue ?q \<noteq> []"
    "\<not> noFailure (audioQueue ?q ! 0)"
    by (simp_all add: q noFailure_def)
  from playback_stops_at_queue_end[of ?p noFailure "''seg2''"] a
  have c: "playNext noFailure ?p = playedOut"
    by (simp add: playingOnly_state playedOut_state)
  from playback_stops_at_queue_end[of playedOut noFailure "''seg2''"]
  have d: "isPlaying ?q = isPlaying playedOut" by simp
  from playback_stops_at_queue_end[of ?q noFailure "''seg2''"] b
  have e: "togglePlayAll noFailure ?q =
       \<lparr>audioQueue = [''seg1'', ''seg2''], currentAudioIndex = 0, isPlaying = True,
        currentAudio = Some ''seg1'', playErrors = []\<rparr>"
    by (simp add: q)
  from a b c d e show ?thesis by simp
qed

text \<open>
  Claim C3 as stated fails: after the only enqueued segment has ended the queue is idle,
  not waiting, and enqueuing the next segment leaves it idle: nothing is playing and the
  new segment is not the current one.
\<close>

theorem no_resume_on_enqueue:
  "playedOut =
     onEnded noFailure ''seg1'' (togglePlayAll noFailure (addAudio ''seg1'' newAudioManager))
   \<and> currentAudioIndex playedOut = -1 \<and> \<not> isPlaying playedOut \<and> currentAudio playedOut = None
   \<and> \<not> isPlaying (addAudio ''seg2'' playedOut)
   \<and> currentAudio (addAudio ''seg2'' playedOut) \<noteq> Some ''seg2''
   \<and> currentAudioIndex (addAudio ''seg2'' playedOut) = -1"
proof -
  have "playedOut =
     onEnded noFailure ''seg1'' (togglePlayAll noFailure (addAudio ''seg1'' newAudioManager))"
    by (simp add: playedOut_def)
  moreover have "currentAudioIndex playedOut = -1 \<and> \<not> isPlaying playedOut
      \<and> currentAudio playedOut = None
      \<and> \<not> isPlaying (addAudio ''seg2'' playedOut)
      \<and> currentAudio (addAudio ''seg2'' playedOut) \<noteq> Some ''seg2''
      \<and> currentAudioIndex (addAudio ''seg2'' playedOut) = -1"
    by (simp add: playedOut_state addAudio_def)
  ultimately show ?thesis by blast
qed

section \<open>Survey validation\<close>













lemma validateStep_None:
  "validateQuestion toNumber rs q = None \<Longrightarrow>
   validateStep toNumber rs (v, errs, marks) q = (v, errs, marks)"
  by (simp add: validateStep_def)

lemma validateStep_Some:
  "validateQuestion toNumber rs q = Some e \<Longrightarrow>
   validateStep toNumber rs (v, errs, marks) q =
     (False, (if e \<in> set errs then errs else errs @ [e]), AList.update (question_id q) e marks)"
  by (simp add: validateStep_def)

lemma validate_fold:
  "foldl (validateStep toNumber rs) (v, errs, marks) qs = (v', errs', marks') \<Longrightarrow>
   (v' = (v \<and> (\<forall>q\<in>set qs. validateQuestion toNumber rs q = None)))
   \<and> set errs' = set errs \<union> {e. \<exists>q\<in>set qs. validateQuestion toNumber rs q = Some e}
   \<and> (distinct errs \<longrightarrow> distinct errs')
   \<and> fst ` set marks' =
       fst ` set marks \<union> {question_id q |q. q \<in> set qs \<and> validateQuestion toNumber rs q \<noteq> None}"
proof (induction qs arbitrary: v errs marks)
  case Nil
  then show ?case by simp
next
  case (Cons q qs)
  show ?case
  proof (cases "validateQuestion toNumber rs q")
    case None
    with Cons.prems have "foldl (validateStep toNumber rs) (v, errs, marks) qs = (v', errs', marks')"
      by (simp add: validateStep_None)
    from Cons.IH[OF this] None show ?thesis by auto
  next
    case (Some e)
    let ?errs = "if e \<in> set errs then errs else errs @ [e]"
    from Cons.prems Some have
      "foldl (validateStep toNumber rs) (False, ?errs, AList.update (question_id q) e marks) qs
        = (v', errs', marks')"
      by (simp add: validateStep_Some)
    from Cons.IH[OF this] Some show ?thesis
      by (auto simp: dom_update)
  qed
qed


text \<open>Otherwise the responses go to \<^verbatim>\<open>sendMessage\<close>.\<close>

lemma submitSurvey_valid:
  assumes sv: "currentSurvey (surveyManager w) = Some sv"
    and good: "\<forall>q\<in>set (allQuestions sv).
                validateQuestion toNumber (surveyResponses (surveyManager w)) q = None"
  shows "wsHandler (submitSurvey toNumber throws w) =
      sendMessage throws (SurveySubmit (surveyId (surveyManager w)) (surveyResponses (surveyManager w)))
        (wsHandler w)"
proof -
  let ?rs = "surveyResponses (surveyManager w)"
  obtain v errs marks where
    res: "validateResponses toNumber sv ?rs (errorMarks w) = (v, errs, marks)"
    by (cases "validateResponses toNumber sv ?rs (errorMarks w)") auto
  then have fold: "foldl (validateStep toNumber ?rs) (True, [], errorMarks w) (allQuestions sv)
      = (v, errs, marks)"
    by (simp add: validateResponses_def)
  from validate_fold[OF fold] good have v: "v" by auto
  show ?thesis using sv res v by (simp add: submitSurvey_def)
qed

lemma surveyStage_state:
  "surveyStage = loadedPage\<lparr>surveyManager :=
      newSurveyManager\<lparr>currentSurvey := Some exampleSurvey, surveyId := Some ''A''\<rparr>\<rparr>"
  by (simp add: surveyStage_def onmessage_def surveyFrame_def blankFrame_def truthy_def
      handleSurveyGenerated_def loadedPage_def newSurveyManager_def Let_def)








section \<open>Inbound frames\<close>

lemma planStage_state:
  "planStage = loadedPage\<lparr>
      surveyManager := \<lparr>currentSurvey = Some exampleSurvey, surveyResponses = [],
         surveyId = Some ''A'', analysis = Some ''an'', plan = Some ''pl'', currentStep = 3\<rparr>,
      wsHandler := (constructor False)\<lparr>messageQueue := [ProgramPlan (Some ''A'')]\<rparr>\<rparr>"
  by (simp add: planStage_def surveyStage_state onmessage_def planFrame_def analysisFrame_def
      blankFrame_def truthy_def handleAnalysisReceived_def handlePlanReceived_def
      loadedPage_def newSurveyManager_def sendMessage_def constructor_state fresh_def Let_def)

text \<open>
  Claim C2 as stated fails: with the workflow at its plan step (survey \<open>A\<close> stored, step
  3), a late \<^verbatim>\<open>survey_generated\<close> frame is not discarded; it replaces the stored survey and
  survey id and puts the step back to 1.
\<close>

theorem late_survey_generated_applied:
  "planStage =
     onmessage noFailure (Some planFrame)
       (onmessage noFailure (Some analysisFrame)
          (onmessage noFailure (Some surveyFrame) loadedPage))
   \<and> currentStep (surveyManager planStage) = 3
   \<and> currentSurvey (surveyManager planStage) = Some exampleSurvey
   \<and> surveyId (surveyManager planStage) = Some ''A''
   \<and> f_type lateSurveyFrame = Some ''survey_generated''
   \<and> surveyManager (onmessage noFailure (Some lateSurveyFrame) planStage)
        \<noteq> surveyManager planStage
   \<and> currentSurvey (surveyManager (onmessage noFailure (Some lateSurveyFrame) planStage))
        = Some otherSurvey
   \<and> surveyId (surveyManager (onmessage noFailure (Some lateSurveyFrame) planStage)) = Some ''B''
   \<and> currentStep (surveyManager (onmessage noFailure (Some lateSurveyFrame) planStage)) = 1"
proof -
  have a: "planStage =
     onmessage noFailure (Some planFrame)
       (onmessage noFailure (Some analysisFrame)
          (onmessage noFailure (Some surveyFrame) loadedPage))"
    by (simp add: planStage_def surveyStage_def)
  have b: "currentStep (surveyManager planStage) = 3"
    "currentSurvey (surveyManager planStage) = Some exampleSurvey"
    "surveyId (surveyManager planStage) = Some ''A''"
    "f_type lateSurveyFrame = Some ''survey_generated''"
    by (simp_all add: planStage_state loadedPage_def lateSurveyFrame_def blankFrame_def)
  have c: "currentSurvey (surveyManager (onmessage noFailure (Some lateSurveyFrame) planStage))
        = Some otherSurvey"
    "surveyId (surveyManager (onmessage noFailure (Some lateSurveyFrame) planStage)) = Some ''B''"
    "currentStep (surveyManager (onmessage noFailure (Some lateSurveyFrame) planStage)) = 1"
    by (simp_all add: planStage_state loadedPage_def onmessage_def lateSurveyFrame_def
        blankFrame_def truthy_def handleSurveyGenerated_def Let_def)
  from b(3) c(2) have d: "surveyManager (onmessage noFailure (Some lateSurveyFrame) planStage)
        \<noteq> surveyManager planStage" by auto
  from a b c d show ?thesis by blast
qed

text \<open>
  Claim C2, as amended. A frame is discarded, with the whole page state unchanged, when
  it cannot be parsed, when it has a truthy \<^verbatim>\<open>error\<close> field, when its \<^verbatim>\<open>type\<close> is missing
  or is none of the kinds that have a case, or when it is a survey kind and the survey
  manager is not initialised. No case looks at the workflow's current step: a
  \<^verbatim>\<open>survey_generated\<close> frame always stores its survey and survey id, a \<^verbatim>\<open>survey_analysis\<close>
  frame its analysis and a \<^verbatim>\<open>program_plan\<close> frame its plan, whatever was stored before.
\<close>

theorem frames_discarded_or_applied:
  "(ev = None \<longrightarrow> onmessage throws ev w = w)
   \<and> (ev = Some r \<and> (truthy (f_error r) \<or> \<not> truthy (f_type r)
          \<or> (\<forall>t\<in>set recognised. f_type r \<noteq> Some t)
          \<or> (\<not> surveyManagerBound w
              \<and> f_type r \<in> {Some ''survey_generated'', Some ''survey_analysis'',
                               Some ''program_plan''}))
        \<longrightarrow> onmessage throws ev w = w)
   \<and> (ev = Some r \<and> \<not> truthy (f_error r) \<and> surveyManagerBound w
        \<longrightarrow> (f_type r = Some ''survey_generated''
              \<longrightarrow> currentSurvey (surveyManager (onmessage throws ev w)) = f_survey r
                \<and> surveyId (surveyManager (onmessage throws ev w)) = f_survey_id r
                \<and> wsHandler (onmessage throws ev w) = wsHandler w)
          \<and> (f_type r = Some ''survey_analysis''
              \<longrightarrow> analysis (surveyManager (onmessage throws ev w)) = f_analysis r)
          \<and> (f_type r = Some ''program_plan''
              \<longrightarrow> plan (surveyManager (onmessage throws ev w)) = f_plan r))"
  by (auto simp: onmessage_def recognised_def truthy_def handleSurveyGenerated_def
      handleAnalysisReceived_def handlePlanReceived_def Let_def
      split: option.splits)

text \<open>
  At the plan step: an unparsable frame, an error frame, a status-only frame and a frame
  of an unknown kind change nothing; a late survey, analysis or plan frame is stored.
\<close>

theorem frames_discarded_or_applied_witness:
  "onmessage noFailure None planStage = planStage
   \<and> truthy (f_error errorFrame) \<and> onmessage noFailure (Some errorFrame) planStage = planStage
   \<and> \<not> truthy (f_type statusFrame)
   \<and> onmessage noFailure (Some statusFrame) planStage = planStage
   \<and> f_type unknownFrame = Some ''file_processed''
   \<and> onmessage noFailure (Some unknownFrame) planStage = planStage
   \<and> \<not> truthy (f_error lateSurveyFrame) \<and> surveyManagerBound planStage
   \<and> f_type lateSurveyFrame = Some ''survey_generated''
   \<and> currentSurvey (surveyManager (onmessage noFailure (Some lateSurveyFrame) planStage))
        = Some otherSurvey
   \<and> surveyId (surveyManager (onmessage noFailure (Some lateSurveyFrame) planStage)) = Some ''B''
   \<and> f_type analysisFrame = Some ''survey_analysis''
   \<and> analysis (surveyManager (onmessage noFailure (Some analysisFrame) planStage)) = Some ''an''
   \<and> f_type planFrame = Some ''program_plan''
   \<and> plan (surveyManager (onmessage noFailure (Some planFrame) planStage)) = Some ''pl''"
proof -
  have a: "truthy (f_error errorFrame)" "\<not> truthy (f_type statusFrame)"
    "f_type unknownFrame = Some ''file_processed''"
    "\<forall>t\<in>set recognised. f_type unknownFrame \<noteq> Some t"
    "\<not> truthy (f_error lateSurveyFrame)" "surveyManagerBound planStage"
    "f_type lateSurveyFrame = Some ''survey_generated''"
    "f_survey lateSurveyFrame = Some otherSurvey" "f_survey_id lateSurveyFrame = Some ''B''"
    by (simp_all add: errorFrame_def statusFrame_def unknownFrame_def lateSurveyFrame_def
        blankFrame_def truthy_def recognised_def planStage_state loadedPage_def)
  have b: "\<not> truthy (f_error analysisFrame)" "f_type analysisFrame = Some ''survey_analysis''"
    "f_analysis analysisFrame = Some ''an''"
    "\<not> truthy (f_error planFrame)" "f_type planFrame = Some ''program_plan''"
    "f_plan planFrame = Some ''pl''"
    by (simp_all add: analysisFrame_def planFrame_def blankFrame_def truthy_def)
  from frames_discarded_or_applied[of None noFailure planStage]
  have c: "onmessage noFailure None planStage = planStage" by simp
  from frames_discarded_or_applied[of "Some errorFrame" noFailure planStage errorFrame] a(1)
  have d: "onmessage noFailure (Some errorFrame) planStage = planStage" by simp
  from frames_discarded_or_applied[of "Some statusFrame" noFailure planStage statusFrame] a(2)
  have e: "onmessage noFailure (Some statusFrame) planStage = planStage" by simp
  from frames_discarded_or_applied[of "Some unknownFrame" noFailure planStage unknownFrame] a(4)
  have f: "onmessage noFailure (Some unknownFrame) planStage = planStage" by simp
  from frames_discarded_or_applied[of "Some lateSurveyFrame" noFailure planStage lateSurveyFrame]
    a(5-9)
  have g: "currentSurvey (surveyManager (onmessage noFailure (Some lateSurveyFrame) planStage))
        = Some otherSurvey"
    "surveyId (surveyManager (onmessage noFailure (Some lateSurveyFrame) planStage)) = Some ''B''"
    by simp_all
  from frames_discarded_or_applied[of "Some analysisFrame" noFailure planStage analysisFrame]
    a(6) b(1-3)
  have h: "analysis (surveyManager (onmessage noFailure (Some analysisFrame) planStage))
      = Some ''an''"
    by simp
  from frames_discarded_or_applied[of "Some planFrame" noFailure planStage planFrame]
    a(6) b(4-6)
  have i: "plan (surveyManager (onmessage noFailure (Some planFrame) planStage)) = Some ''pl''"
    by simp
  from a b c d e f g h i show ?thesis by simp
qed

section \<open>The active file's context\<close>

text \<open>
  As long as every \<^verbatim>\<open>updateFileStatus\<close> call passes the status \<^verbatim>\<open>'processed'\<close>, a record
  that is not processed has no context.
\<close>

lemma update_keeps_invariant:
  assumes "\<forall>k f. map_of al k = Some f \<longrightarrow> processed f \<or> fileContext f = None"
    and "processed v \<or> fileContext v = None"
  shows "\<forall>k f. map_of (AList.update i v al) k = Some f \<longrightarrow> processed f \<or> fileContext f = None"
  using assms by (auto simp: update_conv' split: if_splits)

lemma applyFileOp_invariant:
  assumes inv: "\<forall>k f. map_of (files fm) k = Some f \<longrightarrow> processed f \<or> fileContext f = None"
    and st: "statusProcessed op"
  shows "\<forall>k f. map_of (files (applyFileOp op fm)) k = Some f
      \<longrightarrow> processed f \<or> fileContext f = None"
proof (cases op)
  case (AddFile i)
  then show ?thesis
    using update_keeps_invariant[OF inv, of "\<lparr>processed = False, fileContext = None\<rparr>" i]
    by (simp add: addFileToList_def)
next
  case (ToggleFile i)
  with inv show ?thesis by (simp add: toggleFileContext_def)
next
  case (DeleteFile ok i)
  with inv show ?thesis by (auto simp: deleteFile_def delete_conv' split: if_splits)
next
  case (UpdateStatus i status c)
  with st have p: "status = ''processed''" by simp
  show ?thesis
  proof (cases "map_of (files fm) i")
    case None
    with UpdateStatus inv show ?thesis by (simp add: updateFileStatus_def)
  next
    case (Some rec)
    let ?v = "rec\<lparr>processed := True, fileContext := (if truthy c then c else fileContext rec)\<rparr>"
    have "files (applyFileOp op fm) = AList.update i ?v (files fm)"
      using UpdateStatus Some p by (simp add: updateFileStatus_def)
    with update_keeps_invariant[OF inv, of ?v i] show ?thesis by simp
  qed
qed

lemma runFileOps_invariant:
  "\<forall>k f. map_of (files fm) k = Some f \<longrightarrow> processed f \<or> fileContext f = None \<Longrightarrow>
   list_all statusProcessed ops \<Longrightarrow>
   \<forall>k f. map_of (files (runFileOps ops fm)) k = Some f \<longrightarrow> processed f \<or> fileContext f = None"
proof (induction ops arbitrary: fm)
  case Nil
  then show ?case by (simp add: runFileOps_def)
next
  case (Cons op ops)
  have "runFileOps (op # ops) fm = runFileOps ops (applyFileOp op fm)"
    by (simp add: runFileOps_def)
  moreover have "\<forall>k f. map_of (files (runFileOps ops (applyFileOp op fm))) k = Some f
      \<longrightarrow> processed f \<or> fileContext f = None"
    using Cons.prems by (intro Cons.IH applyFileOp_invariant) simp_all
  ultimately show ?case by simp
qed

text \<open>
  Claim C9, as amended. In every registry state reached from the constructor by calls of
  \<^verbatim>\<open>addFileToList\<close>, \<^verbatim>\<open>toggleFileContext\<close>, \<^verbatim>\<open>deleteFile\<close> and \<^verbatim>\<open>updateFileStatus\<close> in which
  every \<^verbatim>\<open>updateFileStatus\<close> passes the status \<^verbatim>\<open>'processed'\<close>, \<^verbatim>\<open>getActiveFileContext\<close>
  returns \<^verbatim>\<open>null\<close> when no file is active (the empty string as active id counts as none),
  when the active id has no record and when the active record is not processed, and
  otherwise returns the active record's context.
\<close>

theorem active_context_when_processed:
  assumes "list_all statusProcessed ops"
  shows "(activeFile (runFileOps ops newFileUploadManager) = None
            \<longrightarrow> getActiveFileContext (runFileOps ops newFileUploadManager) = None)
    \<and> (\<forall>a. activeFile (runFileOps ops newFileUploadManager) = Some a
            \<and> map_of (files (runFileOps ops newFileUploadManager)) a = None
            \<longrightarrow> getActiveFileContext (runFileOps ops newFileUploadManager) = None)
    \<and> (\<forall>a file. activeFile (runFileOps ops newFileUploadManager) = Some a
            \<and> map_of (files (runFileOps ops newFileUploadManager)) a = Some file
            \<and> \<not> processed file
            \<longrightarrow> getActiveFileContext (runFileOps ops newFileUploadManager) = None)
    \<and> (\<forall>a file. activeFile (runFileOps ops newFileUploadManager) = Some a \<and> a \<noteq> []
            \<and> map_of (files (runFileOps ops newFileUploadManager)) a = Some file
            \<longrightarrow> getActiveFileContext (runFileOps ops newFileUploadManager) = fileContext file)
    \<and> (activeFile (runFileOps ops newFileUploadManager) = Some []
            \<longrightarrow> getActiveFileContext (runFileOps ops newFileUploadManager) = None)"
proof -
  let ?fm = "runFileOps ops newFileUploadManager"
  have "\<forall>k f. map_of (files newFileUploadManager) k = Some f
      \<longrightarrow> processed f \<or> fileContext f = None"
    by (simp add: newFileUploadManager_def)
  from runFileOps_invariant[OF this assms]
  have inv: "\<forall>k f. map_of (files ?fm) k = Some f \<longrightarrow> processed f \<or> fileContext f = None" .
  then have none: "\<And>k f. map_of (files ?fm) k = Some f \<Longrightarrow> \<not> processed f
      \<Longrightarrow> fileContext f = None"
    by blast
  show ?thesis
    using none by (auto simp: getActiveFileContext_def truthy_def)
qed

text \<open>
  Two files, the first made active: no context before it is processed, its context
  afterwards, and none again once the unprocessed second file is made active. And a
  processed file whose id is the empty string: made active, it counts as none.
\<close>

theorem active_context_when_processed_witness:
  "list_all statusProcessed
     [AddFile ''f1'', AddFile ''f2'', ToggleFile ''f1'', UpdateStatus ''f1'' ''processed'' (Some ''ctx''),
      ToggleFile ''f2'']
   \<and> runFileOps [AddFile ''f1'', AddFile ''f2'', ToggleFile ''f1''] newFileUploadManager
       = \<lparr>files = [(''f1'', \<lparr>processed = False, fileContext = None\<rparr>),
                   (''f2'', \<lparr>processed = False, fileContext = None\<rparr>)],
          activeFile = Some ''f1''\<rparr>
   \<and> getActiveFileContext
        (runFileOps [AddFile ''f1'', AddFile ''f2'', ToggleFile ''f1''] newFileUploadManager) = None
   \<and> runFileOps [AddFile ''f1'', AddFile ''f2'', ToggleFile ''f1'',
                  UpdateStatus ''f1'' ''processed'' (Some ''ctx'')] newFileUploadManager
       = \<lparr>files = [(''f1'', \<lparr>processed = True, fileContext = Some ''ctx''\<rparr>),
                   (''f2'', \<lparr>processed = False, fileContext = None\<rparr>)],
          activeFile = Some ''f1''\<rparr>
   \<and> getActiveFileContext
        (runFileOps [AddFile ''f1'', AddFile ''f2'', ToggleFile ''f1'',
                     UpdateStatus ''f1'' ''processed'' (Some ''ctx'')] newFileUploadManager)
       = Some ''ctx''
   \<and> getActiveFileContext
        (runFileOps [AddFile ''f1'', AddFile ''f2'', ToggleFile ''f1'',
                     UpdateStatus ''f1'' ''processed'' (Some ''ctx''), ToggleFile ''f2'']
           newFileUploadManager) = None
   \<and> getActiveFileContext (runFileOps [] newFileUploadManager) = None
   \<and> runFileOps [AddFile [], UpdateStatus [] ''processed'' (Some ''ctx''), ToggleFile []]
         newFileUploadManager
       = \<lparr>files = [([], \<lparr>processed = True, fileContext = Some ''ctx''\<rparr>)],
          activeFile = Some []\<rparr>
   \<and> getActiveFileContext
        (runFileOps [AddFile [], UpdateStatus [] ''processed'' (Some ''ctx''), ToggleFile []]
           newFileUploadManager) = None"
proof -
  let ?o3 = "[AddFile ''f1'', AddFile ''f2'', ToggleFile ''f1'']"
  let ?oe = "[AddFile [], UpdateStatus [] ''processed'' (Some ''ctx''), ToggleFile []]"
  have le: "list_all statusProcessed ?oe" by simp
  have re: "runFileOps ?oe newFileUploadManager
       = \<lparr>files = [([], \<lparr>processed = True, fileContext = Some ''ctx''\<rparr>)],
          activeFile = Some []\<rparr>"
    by (simp add: runFileOps_def newFileUploadManager_def addFileToList_def
        toggleFileContext_def updateFileStatus_def truthy_def)
  from active_context_when_processed[OF le] re
  have ce: "getActiveFileContext (runFileOps ?oe newFileUploadManager) = None" by simp
  let ?o4 = "[AddFile ''f1'', AddFile ''f2'', ToggleFile ''f1'',
              UpdateStatus ''f1'' ''processed'' (Some ''ctx'')]"
  let ?o5 = "[AddFile ''f1'', AddFile ''f2'', ToggleFile ''f1'',
              UpdateStatus ''f1'' ''processed'' (Some ''ctx''), ToggleFile ''f2'']"
  have l: "list_all statusProcessed ?o3" "list_all statusProcessed ?o4"
    "list_all statusProcessed ?o5" "list_all statusProcessed []"
    by simp_all
  have r3: "runFileOps ?o3 newFileUploadManager
       = \<lparr>files = [(''f1'', \<lparr>processed = False, fileContext = None\<rparr>),
                   (''f2'', \<lparr>processed = False, fileContext = None\<rparr>)],
          activeFile = Some ''f1''\<rparr>"
    by (simp add: runFileOps_def newFileUploadManager_def addFileToList_def
        toggleFileContext_def)
  have r4: "runFileOps ?o4 newFileUploadManager
       = \<lparr>files = [(''f1'', \<lparr>processed = True, fileContext = Some ''ctx''\<rparr>),
                   (''f2'', \<lparr>processed = False, fileContext = None\<rparr>)],
          activeFile = Some ''f1''\<rparr>"
    by (simp add: runFileOps_def newFileUploadManager_def addFileToList_def
        toggleFileContext_def updateFileStatus_def truthy_def)
  have r5: "runFileOps ?o5 newFileUploadManager
       = \<lparr>files = [(''f1'', \<lparr>processed = True, fileContext = Some ''ctx''\<rparr>),
                   (''f2'', \<lparr>processed = False, fileContext = None\<rparr>)],
          activeFile = Some ''f2''\<rparr>"
    by (simp add: runFileOps_def newFileUploadManager_def addFileToList_def
        toggleFileContext_def updateFileStatus_def truthy_def)
  have r0: "activeFile (runFileOps [] newFileUploadManager) = None"
    by (simp add: runFileOps_def newFileUploadManager_def)
  from active_context_when_processed[OF l(1)] r3
  have c3: "getActiveFileContext (runFileOps ?o3 newFileUploadManager) = None" by simp
  from active_context_when_processed[OF l(2)] r4
  have c4: "getActiveFileContext (runFileOps ?o4 newFileUploadManager) = Some ''ctx''" by simp
  from active_context_when_processed[OF l(3)] r5
  have c5: "getActiveFileContext (runFileOps ?o5 newFileUploadManager) = None" by simp
  from active_context_when_processed[OF l(4)] r0
  have c0: "getActiveFileContext (runFileOps [] newFileUploadManager) = None" by simp
  from l(3) r3 r4 c3 c4 c5 c0 re ce show ?thesis by simp
qed

text \<open>
  Claim C9 as stated fails: \<^verbatim>\<open>getActiveFileContext\<close> never reads \<^verbatim>\<open>processed\<close>. After
  \<^verbatim>\<open>updateFileStatus('f1', 'failed', 'ctx')\<close> on the active file the record is not
  processed and its context is returned.
\<close>

theorem unprocessed_context_returned:
  "runFileOps [AddFile ''f1'', ToggleFile ''f1'', UpdateStatus ''f1'' ''failed'' (Some ''ctx'')]
      newFileUploadManager
     = \<lparr>files = [(''f1'', \<lparr>processed = False, fileContext = Some ''ctx''\<rparr>)],
        activeFile = Some ''f1''\<rparr>
   \<and> getActiveFileContext
       (runFileOps [AddFile ''f1'', ToggleFile ''f1'', UpdateStatus ''f1'' ''failed'' (Some ''ctx'')]
          newFileUploadManager) = Some ''ctx''
   \<and> getActiveFileContext
       (runFileOps [AddFile ''f1'', ToggleFile ''f1'', UpdateStatus ''f1'' ''failed'' (Some ''ctx'')]
          newFileUploadManager) \<noteq> None"
  by (simp add: runFileOps_def newFileUploadManager_def addFileToList_def
      toggleFileContext_def updateFileStatus_def getActiveFileContext_def truthy_def)

end
